theory Spec2Isabelle
  imports Main "HOL-Library.Word"
begin

section \<open>Distribution policies (broadcast.go)\<close>

text \<open>
  \<^verbatim>\<open>uuid.UUID\<close> is a 16-byte array, read here as one 128-bit word. A Go
  \<^verbatim>\<open>map[K]V\<close> is a partial function; \<^verbatim>\<open>map[string]bool\<close> is used by the
  source as a set whose members are the keys present.

  A Go function may panic; the policies return \<open>Inl\<close> for a panic and \<open>Inr\<close> for a
  normal return.
\<close>

type_synonym uuid = "128 word"

type_synonym assignment = "uuid \<rightharpoonup> (string \<rightharpoonup> bool)"

datatype go_panic =
    NilMapAssignment
  | IndexOutOfRange
  | DivideByZero
  | NilPointerDereference
  | TypeAssertionFailed
  | ExplicitPanic string

type_synonym DistributionFunc = "string list \<Rightarrow> uuid list \<Rightarrow> go_panic + assignment"

text \<open>The inner loop of \<^verbatim>\<open>AllDist\<close>: \<^verbatim>\<open>sendersMap[sender] = true\<close> for each sender.\<close>

fun AllDist_senders :: "string list \<Rightarrow> (string \<rightharpoonup> bool) \<Rightarrow> (string \<rightharpoonup> bool)" where
  "AllDist_senders [] sendersMap = sendersMap"
| "AllDist_senders (sender # rest) sendersMap = AllDist_senders rest (sendersMap(sender \<mapsto> True))"

text \<open>The outer loop: a fresh \<^verbatim>\<open>sendersMap\<close> per receiver, stored under the receiver.\<close>

fun AllDist_receivers :: "string list \<Rightarrow> uuid list \<Rightarrow> assignment \<Rightarrow> assignment" where
  "AllDist_receivers senders [] outputMap = outputMap"
| "AllDist_receivers senders (receiver # rest) outputMap =
     AllDist_receivers senders rest (outputMap(receiver \<mapsto> AllDist_senders senders Map.empty))"

definition AllDist :: DistributionFunc where
  "AllDist senders receivers = Inr (AllDist_receivers senders receivers Map.empty)"

text \<open>First loop of \<^verbatim>\<open>RRDist\<close>: \<^verbatim>\<open>outputMap[receiver] = make(map[string]bool)\<close>.\<close>

fun RRDist_init :: "uuid list \<Rightarrow> assignment \<Rightarrow> assignment" where
  "RRDist_init [] outputMap = outputMap"
| "RRDist_init (receiver # rest) outputMap = RRDist_init rest (outputMap(receiver \<mapsto> Map.empty))"

text \<open>
  Second loop, \<^verbatim>\<open>outputMap[receivers[i%len(receivers)]][sender] = true\<close>, with the
  index \<open>i\<close> of the current sender. The three ways the statement can panic in Go are
  branches: a zero divisor, an index outside the slice, and a store into the nil map that
  a missing outer key yields.
\<close>

fun RRDist_assign :: "uuid list \<Rightarrow> nat \<Rightarrow> string list \<Rightarrow> assignment \<Rightarrow> go_panic + assignment" where
  "RRDist_assign receivers i [] outputMap = Inr outputMap"
| "RRDist_assign receivers i (sender # rest) outputMap =
     (if length receivers = 0 then Inl DivideByZero
      else let j = i mod length receivers in
        if \<not> j < length receivers then Inl IndexOutOfRange
        else (case outputMap (receivers ! j) of
                None \<Rightarrow> Inl NilMapAssignment
              | Some inner \<Rightarrow>
                  RRDist_assign receivers (Suc i) rest
                    (outputMap(receivers ! j \<mapsto> inner(sender \<mapsto> True)))))"

definition RRDist :: DistributionFunc where
  "RRDist senders receivers =
     (if length receivers = 0 then Inr Map.empty
      else RRDist_assign receivers 0 senders (RRDist_init receivers Map.empty))"

section \<open>The Broadcaster registry (broadcast.go)\<close>

text \<open>
  Objects of the media and websocket libraries live outside the program: a
  \<^verbatim>\<open>*webrtc.PeerConnection\<close> and a \<^verbatim>\<open>*websocket.Conn\<close> are handles, and what
  the program does to them is recorded as a list of effects, in program order. What a
  library call returns is an input of the model.
\<close>

type_synonym PeerConnection = nat
type_synonym websocket_Conn = nat

text \<open>
  \<^verbatim>\<open>errors.Is(err, target)\<close> walks the chain of wrapped errors.
\<close>

datatype go_error =
    ErrClosedPipe
  | EOF
  | ErrShortBuffer
  | OtherError string
  | Wrapped string go_error

fun errors_Is :: "go_error \<Rightarrow> go_error \<Rightarrow> bool" where
  "errors_Is (Wrapped msg inner) target =
     (Wrapped msg inner = target \<or> errors_Is inner target)"
| "errors_Is err target = (err = target)"

text \<open>
  A track, remote or local, exposes \<^verbatim>\<open>ID()\<close>, \<^verbatim>\<open>StreamID()\<close> and its codec.
\<close>

record Track =
  ID :: string
  StreamID :: string
  Codec :: string

type_synonym TrackRemote = Track
type_synonym TrackLocal = Track

record PeerSenderState =
  ETag :: string
  PeerConn :: PeerConnection

record ReceiverState =
  Connection :: PeerConnection
  SignalSocket :: websocket_Conn

record websocketMessage =
  Event :: string
  Data :: string

datatype SDPType = SDPTypeOffer | SDPTypePranswer | SDPTypeAnswer | SDPTypeRollback

record SessionDescription =
  Type :: SDPType
  SDP :: string

text \<open>An \<^verbatim>\<open>*webrtc.RTPSender\<close>: its handle and what \<^verbatim>\<open>Track()\<close> returns (nil is \<open>None\<close>).\<close>

record RTPSender =
  sender_handle :: nat
  sender_Track :: "TrackLocal option"

datatype PeerConnectionState =
    PeerConnectionStateNew
  | PeerConnectionStateConnecting
  | PeerConnectionStateConnected
  | PeerConnectionStateDisconnected
  | PeerConnectionStateFailed
  | PeerConnectionStateClosed

datatype StatusCode = StatusNormalClosure | StatusGoingAway | StatusInternalError

datatype MessageType = MessageText | MessageBinary

datatype effect =
    Go_rebalanceReceivers
  | Go_forwarder TrackRemote TrackLocal
  | SignalSocket_Close websocket_Conn StatusCode string
  | Connection_Close PeerConnection
  | Connection_RemoveTrack PeerConnection RTPSender
  | Connection_AddTrack PeerConnection "TrackLocal option"
  | Connection_CreateOffer PeerConnection
  | Connection_SetLocalDescription PeerConnection SessionDescription
  | Connection_AddTransceiverFromKind PeerConnection
  | Connection_OnTrack PeerConnection
  | Connection_SetRemoteDescription PeerConnection SessionDescription
  | Connection_CreateAnswer PeerConnection
  | SignalSocket_Write websocket_Conn MessageType string
  | TrackLocal_Write TrackLocal "8 word list"
  | Log string
  | Log_error go_error

text \<open>
  The three maps of the registry and the policy. The mutex is not a field: every
  operation below is one critical section, a function from the state before to the state
  after. \<^verbatim>\<open>go f()\<close> is the effect of spawning, not a call.
\<close>

record Broadcaster =
  peerSender :: "uuid \<rightharpoonup> PeerSenderState"
  senders :: "string \<rightharpoonup> TrackLocal"
  receivers :: "uuid \<rightharpoonup> ReceiverState"
  distributionFunction :: DistributionFunc

definition NewBroadcaster :: "DistributionFunc \<Rightarrow> Broadcaster" where
  "NewBroadcaster distFunc =
     \<lparr>peerSender = Map.empty, senders = Map.empty, receivers = Map.empty,
      distributionFunction = distFunc\<rparr>"

text \<open>\<open>uid\<close> stands for the source's \<^verbatim>\<open>id\<close>; in \<open>AddPeerSender\<close> and \<open>AddReceiver\<close> it is
  what \<^verbatim>\<open>uuid.New()\<close> returned.\<close>

definition AddPeerSender :: "Broadcaster \<Rightarrow> uuid \<Rightarrow> PeerSenderState \<Rightarrow> Broadcaster \<times> uuid" where
  "AddPeerSender s uid peer = (s\<lparr>peerSender := (peerSender s)(uid \<mapsto> peer)\<rparr>, uid)"

definition DeletePeerSender :: "Broadcaster \<Rightarrow> uuid \<Rightarrow> Broadcaster" where
  "DeletePeerSender s uid = s\<lparr>receivers := (receivers s)(uid := None)\<rparr>"

text \<open>\<^verbatim>\<open>v, ok := s.peerSender[id]\<close>: \<open>None\<close> is \<^verbatim>\<open>ok == false\<close>.\<close>

definition GetPeerSender :: "Broadcaster \<Rightarrow> uuid \<Rightarrow> PeerSenderState option" where
  "GetPeerSender s uid = peerSender s uid"

text \<open>
  \<^verbatim>\<open>webrtc.NewTrackLocalStaticRTP(codec, id, streamID)\<close>: the library either fails with the
  error \<open>fails\<close> or returns a track carrying the three arguments.
\<close>

definition NewTrackLocalStaticRTP ::
  "go_error option \<Rightarrow> string \<Rightarrow> string \<Rightarrow> string \<Rightarrow> go_error + TrackLocal" where
  "NewTrackLocalStaticRTP fails codec tid sid =
     (case fails of
        Some err \<Rightarrow> Inl err
      | None \<Rightarrow> Inr \<lparr>ID = tid, StreamID = sid, Codec = codec\<rparr>)"

text \<open>The result is the returned pointer: \<open>None\<close> is nil.\<close>

definition AddSender ::
  "go_error option \<Rightarrow> Broadcaster \<Rightarrow> TrackRemote \<Rightarrow> Broadcaster \<times> TrackLocal option \<times> effect list" where
  "AddSender fails s t =
     (case NewTrackLocalStaticRTP fails (Codec t) (ID t) (StreamID t) of
        Inl err \<Rightarrow> (s, None, [Log ''Unable to create local track''])
      | Inr trackLocal \<Rightarrow>
          (s\<lparr>senders := (senders s)(StreamID trackLocal @ ID trackLocal \<mapsto> trackLocal)\<rparr>,
           Some trackLocal,
           [Log ''Add new track'', Go_forwarder t trackLocal, Go_rebalanceReceivers]))"

definition AddReceiver ::
  "Broadcaster \<Rightarrow> uuid \<Rightarrow> ReceiverState \<Rightarrow> Broadcaster \<times> uuid \<times> effect list" where
  "AddReceiver s uid receiver =
     (s\<lparr>receivers := (receivers s)(uid \<mapsto> receiver)\<rparr>, uid, [Go_rebalanceReceivers])"

definition RemoveSender :: "Broadcaster \<Rightarrow> TrackLocal \<Rightarrow> Broadcaster \<times> effect list" where
  "RemoveSender s t =
     (case senders s (StreamID t @ ID t) of
        None \<Rightarrow> (s, [Log ''Removing Track''])
      | Some _ \<Rightarrow>
          (s\<lparr>senders := (senders s)(StreamID t @ ID t := None)\<rparr>,
           [Log ''Removing Track'', Go_rebalanceReceivers]))"

definition RemoveReceiver :: "Broadcaster \<Rightarrow> uuid \<Rightarrow> Broadcaster \<times> effect list" where
  "RemoveReceiver s uid =
     (case receivers s uid of
        None \<Rightarrow> (s, [])
      | Some receiver \<Rightarrow>
          (s\<lparr>receivers := (receivers s)(uid := None)\<rparr>,
           [SignalSocket_Close (SignalSocket receiver) StatusNormalClosure ''Ending operation'',
            Connection_Close (Connection receiver),
            Go_rebalanceReceivers]))"

subsection \<open>The forwarder goroutine of \<^verbatim>\<open>AddSender\<close>\<close>

text \<open>
  The goroutine loops forever on \<^verbatim>\<open>t.Read\<close> and \<^verbatim>\<open>trackLocal.Write\<close>. What the two
  calls return is the input: one \<open>packet_io\<close> per iteration, either a failed read, or a
  read of some bytes together with the error (or nil) of the write that follows. On a
  finite input the goroutine ends blocked in the next \<^verbatim>\<open>Read\<close>, or has returned.
  It runs without the lock; the registry it meets at \<^verbatim>\<open>RemoveSender\<close> is \<open>s\<close>.
\<close>

datatype packet_io =
    ReadError go_error
  | ReadOK "8 word list" "go_error option"

datatype forwarder_status = BlockedInRead | Returned

fun forwarder ::
  "Broadcaster \<Rightarrow> TrackLocal \<Rightarrow> packet_io list \<Rightarrow> Broadcaster \<times> effect list \<times> forwarder_status" where
  "forwarder s trackLocal [] = (s, [], BlockedInRead)"
| "forwarder s trackLocal (ReadError err # rest) =
     (case RemoveSender s trackLocal of (s', effs) \<Rightarrow> (s', effs, Returned))"
| "forwarder s trackLocal (ReadOK pkt werr # rest) =
     (if (case werr of None \<Rightarrow> False | Some err \<Rightarrow> \<not> errors_Is err ErrClosedPipe)
      then (s, [TrackLocal_Write trackLocal pkt], Returned)
      else (case forwarder s trackLocal rest of
              (s', effs, st) \<Rightarrow> (s', TrackLocal_Write trackLocal pkt # effs, st)))"

subsection \<open>Rebalance\<close>

text \<open>What the library calls made during a rebalance return.\<close>

record Env =
  ConnectionState :: "PeerConnection \<Rightarrow> PeerConnectionState"
  GetSenders :: "PeerConnection \<Rightarrow> RTPSender list"
  CreateOffer :: "PeerConnection \<Rightarrow> go_error + SessionDescription"
  SetLocalDescription :: "PeerConnection \<Rightarrow> SessionDescription \<Rightarrow> go_error option"
  json_Marshal_offer :: "SessionDescription \<Rightarrow> go_error + string"
  json_Marshal_message :: "websocketMessage \<Rightarrow> go_error + string"

text \<open>
  Go leaves the order of \<^verbatim>\<open>range\<close> over a map open. The order the runtime picks at each
  of the five \<^verbatim>\<open>range\<close> statements of a rebalance is an input; \<open>range_of m ks\<close> says that
  \<open>ks\<close> is such an order for the map \<open>m\<close>.
\<close>

record range_orders =
  range_prune :: "uuid list"
  range_receivers :: "uuid list"
  range_senders :: "string list"
  range_match :: "uuid list"
  range_target :: "uuid \<Rightarrow> string list"

definition range_of :: "('k \<rightharpoonup> 'v) \<Rightarrow> 'k list \<Rightarrow> bool" where
  "range_of m ks \<longleftrightarrow> distinct ks \<and> set ks = dom m"

text \<open>
  \<^verbatim>\<open>pruneClosedConnections\<close>. A key that the map no longer holds is not visited.
\<close>

fun pruneClosedConnections ::
  "Env \<Rightarrow> uuid list \<Rightarrow> (uuid \<rightharpoonup> ReceiverState) \<Rightarrow> (uuid \<rightharpoonup> ReceiverState) \<times> effect list" where
  "pruneClosedConnections env [] m = (m, [])"
| "pruneClosedConnections env (u # rest) m =
     (case m u of
        None \<Rightarrow> pruneClosedConnections env rest m
      | Some rs \<Rightarrow>
          if ConnectionState env (Connection rs) = PeerConnectionStateClosed
          then (case pruneClosedConnections env rest (m(u := None)) of
                  (m', effs) \<Rightarrow>
                    (m', SignalSocket_Close (SignalSocket rs) StatusGoingAway
                           ''WebRTC connection closed'' # effs))
          else pruneClosedConnections env rest m)"

text \<open>
  The loop over \<^verbatim>\<open>receiver.Connection.GetSenders()\<close>: it fills \<^verbatim>\<open>existingSenders\<close> and
  detaches every sender whose track is not in the target \<open>v\<close>.
\<close>

fun detach_loop ::
  "PeerConnection \<Rightarrow> (string \<rightharpoonup> bool) \<Rightarrow> RTPSender list \<Rightarrow> (string \<rightharpoonup> bool) \<Rightarrow>
   (string \<rightharpoonup> bool) \<times> effect list" where
  "detach_loop conn v [] existingSenders = (existingSenders, [])"
| "detach_loop conn v (sender # rest) existingSenders =
     (case sender_Track sender of
        None \<Rightarrow> detach_loop conn v rest existingSenders
      | Some tr \<Rightarrow>
          (case detach_loop conn v rest (existingSenders(StreamID tr @ ID tr \<mapsto> True)) of
             (existing', effs) \<Rightarrow>
               (existing',
                (if v (StreamID tr @ ID tr) = None then [Connection_RemoveTrack conn sender] else [])
                @ effs)))"

text \<open>The loop \<^verbatim>\<open>for trackID := range v\<close>: attach what is not attached yet.\<close>

fun attach_loop ::
  "PeerConnection \<Rightarrow> (string \<rightharpoonup> TrackLocal) \<Rightarrow> (string \<rightharpoonup> bool) \<Rightarrow> string list \<Rightarrow> effect list" where
  "attach_loop conn snds existingSenders [] = []"
| "attach_loop conn snds existingSenders (trackID # rest) =
     (if existingSenders trackID = None then [Connection_AddTrack conn (snds trackID)] else [])
     @ attach_loop conn snds existingSenders rest"

text \<open>
  The rest of the loop body, from \<^verbatim>\<open>CreateOffer\<close> to the write on the signaling socket;
  each \<^verbatim>\<open>continue\<close> of the source ends the list.
\<close>

definition send_offer :: "Env \<Rightarrow> ReceiverState \<Rightarrow> effect list" where
  "send_offer env receiver =
     Connection_CreateOffer (Connection receiver) #
     (case CreateOffer env (Connection receiver) of
        Inl err \<Rightarrow> [Log ''Unable to create offer'']
      | Inr offer \<Rightarrow>
          Connection_SetLocalDescription (Connection receiver) offer #
          (case SetLocalDescription env (Connection receiver) offer of
             Some err \<Rightarrow> [Log_error err]
           | None \<Rightarrow> []) @
          Log ''Sending offer'' #
          (case json_Marshal_offer env offer of
             Inl err \<Rightarrow> [Log ''Unable to marshal offer to json'']
           | Inr offerString \<Rightarrow>
               (case json_Marshal_message env \<lparr>Event = ''offer'', Data = offerString\<rparr> of
                  Inl err \<Rightarrow> [Log ''Unable to marshal offer to json'']
                | Inr messageString \<Rightarrow>
                    [SignalSocket_Write (SignalSocket receiver) MessageText messageString])))"

text \<open>One pass of the body of \<^verbatim>\<open>for u, v := range match\<close>.\<close>

definition reconcile ::
  "Env \<Rightarrow> (string \<rightharpoonup> TrackLocal) \<Rightarrow> string list \<Rightarrow> ReceiverState \<Rightarrow> (string \<rightharpoonup> bool) \<Rightarrow> effect list" where
  "reconcile env snds v_order receiver v =
     (case detach_loop (Connection receiver) v (GetSenders env (Connection receiver)) Map.empty of
        (existingSenders, effs) \<Rightarrow>
          effs @ attach_loop (Connection receiver) snds existingSenders v_order
          @ send_offer env receiver)"

text \<open>
  \<^verbatim>\<open>receiver := s.receivers[u]\<close> yields the zero \<^verbatim>\<open>ReceiverState\<close> for a missing key; its
  \<^verbatim>\<open>Connection\<close> is nil and the call of \<^verbatim>\<open>GetSenders\<close> on it panics.
\<close>

fun reconcile_loop ::
  "Env \<Rightarrow> range_orders \<Rightarrow> Broadcaster \<Rightarrow> assignment \<Rightarrow> uuid list \<Rightarrow> effect list \<times> go_panic option" where
  "reconcile_loop env ord s match [] = ([], None)"
| "reconcile_loop env ord s match (u # rest) =
     (case match u of
        None \<Rightarrow> reconcile_loop env ord s match rest
      | Some v \<Rightarrow>
          (case receivers s u of
             None \<Rightarrow> ([], Some NilPointerDereference)
           | Some receiver \<Rightarrow>
               (case reconcile_loop env ord s match rest of
                  (effs, p) \<Rightarrow>
                    (reconcile env (senders s) (range_target ord u) receiver v @ effs, p))))"

definition rebalanceReceivers ::
  "Env \<Rightarrow> range_orders \<Rightarrow> Broadcaster \<Rightarrow> Broadcaster \<times> effect list \<times> go_panic option" where
  "rebalanceReceivers env ord s =
     (case pruneClosedConnections env (range_prune ord) (receivers s) of
        (m, pruned) \<Rightarrow>
          (case distributionFunction s (range_senders ord) (range_receivers ord) of
             Inl p \<Rightarrow> (s\<lparr>receivers := m\<rparr>, pruned, Some p)
           | Inr match \<Rightarrow>
               (case reconcile_loop env ord (s\<lparr>receivers := m\<rparr>) match (range_match ord) of
                  (effs, p) \<Rightarrow> (s\<lparr>receivers := m\<rparr>, pruned @ effs, p))))"

section \<open>The publisher endpoints (whip.go, main.go)\<close>

text \<open>
  A request is what the handler reads from it: \<^verbatim>\<open>r.Header.Get\<close>, the outcome of
  \<^verbatim>\<open>io.ReadAll(r.Body)\<close>, \<^verbatim>\<open>r.Context().Value\<close> and \<^verbatim>\<open>chi.URLParam\<close>. A response is
  what has been written: the status of \<^verbatim>\<open>WriteHeader\<close> (\<open>None\<close> before it is called),
  the header entries and the body.
\<close>

datatype ctx_value = SugaredLogger nat | OtherValue string

record http_Request =
  Header_Get :: "string \<Rightarrow> string"
  Body_ReadAll :: "go_error + string"
  Context_Value :: "string \<rightharpoonup> ctx_value"
  URLParam :: "string \<Rightarrow> string"

record http_ResponseWriter =
  status :: "nat option"
  header :: "(string \<times> string) list"
  body :: string

definition LOGGER :: string where
  "LOGGER = ''logger''"

definition StatusOK :: nat where "StatusOK = 200"
definition StatusCreated :: nat where "StatusCreated = 201"
definition StatusNotFound :: nat where "StatusNotFound = 404"
definition StatusNotAcceptable :: nat where "StatusNotAcceptable = 406"
definition StatusInternalServerError :: nat where "StatusInternalServerError = 500"

definition Header_Add :: "http_ResponseWriter \<Rightarrow> string \<Rightarrow> string \<Rightarrow> http_ResponseWriter" where
  "Header_Add w k v = w\<lparr>header := header w @ [(k, v)]\<rparr>"

definition Header_Set :: "http_ResponseWriter \<Rightarrow> string \<Rightarrow> string \<Rightarrow> http_ResponseWriter" where
  "Header_Set w k v = w\<lparr>header := filter (\<lambda>kv. fst kv \<noteq> k) (header w) @ [(k, v)]\<rparr>"

definition Header_Del :: "http_ResponseWriter \<Rightarrow> string \<Rightarrow> http_ResponseWriter" where
  "Header_Del w k = w\<lparr>header := filter (\<lambda>kv. fst kv \<noteq> k) (header w)\<rparr>"

text \<open>Only the first \<^verbatim>\<open>WriteHeader\<close> counts; a \<^verbatim>\<open>Write\<close> before it implies 200.\<close>

definition WriteHeader :: "http_ResponseWriter \<Rightarrow> nat \<Rightarrow> http_ResponseWriter" where
  "WriteHeader w code = (if status w = None then w\<lparr>status := Some code\<rparr> else w)"

definition Write :: "http_ResponseWriter \<Rightarrow> string \<Rightarrow> http_ResponseWriter" where
  "Write w data = (WriteHeader w StatusOK)\<lparr>body := body w @ data\<rparr>"

text \<open>\<^verbatim>\<open>http.Error(w, error, code)\<close> of net/http.\<close>

definition http_Error :: "http_ResponseWriter \<Rightarrow> string \<Rightarrow> nat \<Rightarrow> http_ResponseWriter" where
  "http_Error w msg code =
     Write
       (WriteHeader
          (Header_Set
             (Header_Set (Header_Del w ''Content-Length'')
                ''Content-Type'' ''text/plain; charset=utf-8'')
             ''X-Content-Type-Options'' ''nosniff'')
          code)
       (msg @ [CHR 0x0A])"

text \<open>How a handler ends: it returns, panics, or waits forever on a channel.\<close>

datatype outcome = Return | Panic go_panic | Blocked

type_synonym handler_result = "Broadcaster \<times> http_ResponseWriter \<times> effect list \<times> outcome"

text \<open>What the library calls of \<^verbatim>\<open>whipHandler\<close> return.\<close>

record whip_env =
  whip_NewPeerConnection :: "go_error + PeerConnection"
  whip_AddTransceiverFromKind :: "go_error option"
  whip_SetRemoteDescription :: "go_error option"
  whip_CreateAnswer :: "go_error + SessionDescription"
  whip_SetLocalDescription :: "go_error option"
  whip_gatherComplete :: bool
  whip_uuid_NewString :: string
  whip_uuid_New :: uuid
  whip_uuid_String :: "uuid \<Rightarrow> string"
  whip_LocalDescription :: SessionDescription

text \<open>
  The body of \<^verbatim>\<open>whipHandler\<close> after the peer connection exists. A failed
  \<^verbatim>\<open>AddTransceiverFromKind\<close> is logged only; the three \<^verbatim>\<open>panic(err)\<close> are \<open>Panic\<close>.
\<close>

definition whip_negotiate ::
  "Broadcaster \<Rightarrow> whip_env \<Rightarrow> http_ResponseWriter \<Rightarrow> string \<Rightarrow> PeerConnection \<Rightarrow> handler_result" where
  "whip_negotiate b env w boffer peer =
     (let offer = \<lparr>Type = SDPTypeOffer, SDP = boffer\<rparr>;
          effs = Connection_AddTransceiverFromKind peer #
                 (case whip_AddTransceiverFromKind env of Some err \<Rightarrow> [Log_error err] | None \<Rightarrow> [])
                 @ [Connection_OnTrack peer, Connection_SetRemoteDescription peer offer]
      in case whip_SetRemoteDescription env of
           Some err \<Rightarrow> (b, w, effs, Panic (ExplicitPanic ''SetRemoteDescription''))
         | None \<Rightarrow>
             (case whip_CreateAnswer env of
                Inl err \<Rightarrow>
                  (b, w, effs @ [Connection_CreateAnswer peer], Panic (ExplicitPanic ''CreateAnswer''))
              | Inr answer \<Rightarrow>
                  (let effs' = effs @ [Connection_CreateAnswer peer,
                                       Connection_SetLocalDescription peer answer]
                   in case whip_SetLocalDescription env of
                        Some err \<Rightarrow> (b, w, effs', Panic (ExplicitPanic ''SetLocalDescription''))
                      | None \<Rightarrow>
                          if \<not> whip_gatherComplete env then (b, w, effs', Blocked)
                          else
                            (let senderState = \<lparr>ETag = whip_uuid_NewString env, PeerConn = peer\<rparr>
                             in case AddPeerSender b (whip_uuid_New env) senderState of
                                  (b', peerID) \<Rightarrow>
                                    (b',
                                     Write
                                       (WriteHeader
                                          (Header_Add
                                             (Header_Add
                                                (Header_Add
                                                   (Header_Add w ''content-type'' ''application/sdp'')
                                                   ''Location'' (''/whip/'' @ whip_uuid_String env peerID))
                                                ''ETag'' ([CHR 0x22] @ ETag senderState @ [CHR 0x22]))
                                             ''Accept-Patch'' ''application/trickle-ice-sdpfrag'')
                                          StatusCreated)
                                       (SDP (whip_LocalDescription env)),
                                     effs', Return)))))"

text \<open>
  \<^verbatim>\<open>whipHandler(b)\<close>. The type assertion on the context value panics when the value is
  missing or is not a logger. After a failed \<^verbatim>\<open>NewPeerConnection\<close> the source goes on with
  a nil \<^verbatim>\<open>peer\<close>, and the next call on it panics.
\<close>

definition whipHandler ::
  "Broadcaster \<Rightarrow> whip_env \<Rightarrow> http_ResponseWriter \<Rightarrow> http_Request \<Rightarrow> handler_result" where
  "whipHandler b env w r =
     (case Context_Value r LOGGER of
        Some (SugaredLogger logger) \<Rightarrow>
          if Header_Get r ''content-type'' \<noteq> ''application/sdp''
          then (b, http_Error w ''Unsupported content type'' StatusNotAcceptable, [], Return)
          else (case Body_ReadAll r of
                  Inl err \<Rightarrow> (b, w, [Log_error err], Return)
                | Inr boffer \<Rightarrow>
                    (case whip_NewPeerConnection env of
                       Inl err \<Rightarrow> (b, w, [Log_error err], Panic NilPointerDereference)
                     | Inr peer \<Rightarrow> whip_negotiate b env w boffer peer))
      | _ \<Rightarrow> (b, w, [], Panic TypeAssertionFailed))"

text \<open>What the library calls of \<^verbatim>\<open>whipDeleteHandler\<close> return.\<close>

record delete_env =
  uuid_Parse :: "string \<Rightarrow> go_error + uuid"
  PeerConn_Close :: "PeerConnection \<Rightarrow> go_error option"

definition whipDeleteHandler ::
  "Broadcaster \<Rightarrow> delete_env \<Rightarrow> http_ResponseWriter \<Rightarrow> http_Request \<Rightarrow> handler_result" where
  "whipDeleteHandler b env w r =
     (case Context_Value r LOGGER of
        Some (SugaredLogger logger) \<Rightarrow>
          (case uuid_Parse env (URLParam r ''peerID'') of
             Inl err \<Rightarrow> (b, http_Error w ''Not Found'' StatusNotFound, [], Return)
           | Inr peerID \<Rightarrow>
               (case GetPeerSender b peerID of
                  None \<Rightarrow> (b, http_Error w ''Not Found'' StatusNotFound, [], Return)
                | Some peer \<Rightarrow>
                    if PeerConn_Close env (PeerConn peer) \<noteq> None
                    then (b,
                          http_Error w ''Error closing peer connection'' StatusInternalServerError,
                          [Connection_Close (PeerConn peer), Log ''Unable to close peer connection''],
                          Return)
                    else (DeletePeerSender b peerID, WriteHeader w StatusOK,
                          [Connection_Close (PeerConn peer)], Return)))
      | _ \<Rightarrow> (b, w, [], Panic TypeAssertionFailed))"

text \<open>
  \<^verbatim>\<open>LogMiddleware(l)\<close> of main.go, installed on every route: it stores the request's
  logger in the context under \<^verbatim>\<open>LOGGER\<close>, calls the next handler, and its deferred
  function logs the handled request, also when the handler panics.
\<close>

definition LogMiddleware ::
  "nat \<Rightarrow> (http_ResponseWriter \<Rightarrow> http_Request \<Rightarrow> handler_result) \<Rightarrow>
   http_ResponseWriter \<Rightarrow> http_Request \<Rightarrow> handler_result" where
  "LogMiddleware l next w r =
     (case next w (r\<lparr>Context_Value := (Context_Value r)(LOGGER \<mapsto> SugaredLogger l)\<rparr>) of
        (b, w', effs, out) \<Rightarrow> (b, w', effs @ [Log ''Handled request''], out))"

text \<open>The route \<^verbatim>\<open>router.Post("/whip", whipHandler(&broadcaster))\<close> behind the middleware.\<close>

definition post_whip ::
  "nat \<Rightarrow> Broadcaster \<Rightarrow> whip_env \<Rightarrow> http_ResponseWriter \<Rightarrow> http_Request \<Rightarrow> handler_result" where
  "post_whip l b env w r = LogMiddleware l (whipHandler b env) w r"

text \<open>The route \<^verbatim>\<open>router.Delete("/whip/{peerID}", whipDeleteHandler(&broadcaster))\<close>.\<close>

definition delete_whip ::
  "nat \<Rightarrow> Broadcaster \<Rightarrow> delete_env \<Rightarrow> http_ResponseWriter \<Rightarrow> http_Request \<Rightarrow> handler_result" where
  "delete_whip l b env w r = LogMiddleware l (whipDeleteHandler b env) w r"

section \<open>Properties of the distribution policies\<close>

lemma AllDist_senders_lookup:
  "AllDist_senders ss m k = (if k \<in> set ss then Some True else m k)"
  by (induction ss arbitrary: m) auto

lemma AllDist_receivers_lookup:
  "AllDist_receivers ss rs m u =
     (if u \<in> set rs then Some (AllDist_senders ss Map.empty) else m u)"
  by (induction rs arbitrary: m) auto

lemma RRDist_init_lookup:
  "RRDist_init rs m u = (if u \<in> set rs then Some Map.empty else m u)"
  by (induction rs arbitrary: m) auto

lemma RRDist_assign_inv:
  assumes "rs \<noteq> []" and "dom m = set rs"
  shows "\<exists>m'. RRDist_assign rs i ss m = Inr m' \<and> dom m' = set rs \<and>
           (\<forall>r k. r \<in> set rs \<longrightarrow>
              the (m' r) k =
                (if \<exists>p<length ss. ss ! p = k \<and> rs ! ((i + p) mod length rs) = r
                 then Some True else the (m r) k))"
  using assms
proof (induction ss arbitrary: i m)
  case Nil
  then show ?case by simp
next
  case (Cons sender rest)
  let ?n = "length rs"
  let ?j = "i mod ?n"
  let ?r0 = "rs ! ?j"
  have n: "0 < ?n" using Cons.prems by simp
  then have j: "?j < ?n" by simp
  then have r0: "?r0 \<in> set rs" by simp
  then obtain inner where inner: "m ?r0 = Some inner"
    using Cons.prems(2) by blast
  let ?m1 = "m(?r0 \<mapsto> inner(sender \<mapsto> True))"
  have d1: "dom ?m1 = set rs" using Cons.prems(2) r0 by auto
  from Cons.IH[OF Cons.prems(1) d1, of "Suc i"]
  obtain m' where m': "RRDist_assign rs (Suc i) rest ?m1 = Inr m'" "dom m' = set rs"
    and look: "\<And>r k. r \<in> set rs \<Longrightarrow> the (m' r) k =
                (if \<exists>p<length rest. rest ! p = k \<and> rs ! ((Suc i + p) mod ?n) = r
                 then Some True else the (?m1 r) k)"
    by blast
  have run: "RRDist_assign rs i (sender # rest) m = Inr m'"
    using n j inner m'(1) by (simp add: Let_def)
  have "the (m' r) k =
          (if \<exists>p<length (sender # rest). (sender # rest) ! p = k \<and> rs ! ((i + p) mod ?n) = r
           then Some True else the (m r) k)" if r: "r \<in> set rs" for r k
  proof -
    have ex: "(\<exists>p<length (sender # rest). (sender # rest) ! p = k \<and> rs ! ((i + p) mod ?n) = r)
          \<longleftrightarrow> (sender = k \<and> ?r0 = r) \<or> (\<exists>p<length rest. rest ! p = k \<and> rs ! ((Suc i + p) mod ?n) = r)"
      by (auto simp: less_Suc_eq_0_disj)
    show ?thesis
      unfolding ex look[OF r] using inner by auto
  qed
  with run m'(2) show ?case by blast
qed

text \<open>
  Claim C2. For every list of track keys \<open>ss\<close> and every list of subscriber ids \<open>rs\<close>,
  \<^verbatim>\<open>RRDist\<close> returns (it does not panic) a map whose domain is exactly the ids of
  \<open>rs\<close>; with no subscriber the map is empty; the entry of a subscriber \<open>r\<close> holds exactly
  the tracks whose index \<open>i\<close> in \<open>ss\<close> selects \<open>r\<close> at index \<open>i mod S\<close> of \<open>rs\<close>, each
  stored with the value true. A subscriber that no index selects therefore has an entry
  with no key.
\<close>

theorem RRDist_round_robin:
  "\<exists>m. RRDist ss rs = Inr m \<and> dom m = set rs \<and> (rs = [] \<longrightarrow> m = Map.empty) \<and>
       (\<forall>r\<in>set rs. \<exists>v. m r = Some v \<and>
          dom v = {ss ! i | i. i < length ss \<and> rs ! (i mod length rs) = r} \<and>
          (\<forall>k\<in>dom v. v k = Some True))"
proof (cases "rs = []")
  case True
  then show ?thesis by (simp add: RRDist_def)
next
  case False
  let ?m0 = "RRDist_init rs Map.empty"
  have d0: "dom ?m0 = set rs"
    by (auto simp: RRDist_init_lookup dom_def)
  from RRDist_assign_inv[OF False d0, of 0 ss]
  obtain m where run: "RRDist_assign rs 0 ss ?m0 = Inr m" and d: "dom m = set rs"
    and look0: "\<forall>r k. r \<in> set rs \<longrightarrow> the (m r) k =
                (if \<exists>p<length ss. ss ! p = k \<and> rs ! ((0 + p) mod length rs) = r
                 then Some True else the (?m0 r) k)"
    by blast
  have look: "the (m r) k =
                (if \<exists>p<length ss. ss ! p = k \<and> rs ! (p mod length rs) = r
                 then Some True else None)" if "r \<in> set rs" for r k
    using look0[rule_format, OF that, of k] that by (auto simp: RRDist_init_lookup)
  have "\<exists>v. m r = Some v \<and>
          dom v = {ss ! i | i. i < length ss \<and> rs ! (i mod length rs) = r} \<and>
          (\<forall>k\<in>dom v. v k = Some True)" if r: "r \<in> set rs" for r
  proof -
    from r d obtain v where v: "m r = Some v" by blast
    have vk: "v k = (if \<exists>p<length ss. ss ! p = k \<and> rs ! (p mod length rs) = r
                 then Some True else None)" for k
      using look[OF r, of k] v by simp
    have "dom v = {ss ! i | i. i < length ss \<and> rs ! (i mod length rs) = r}"
      by (auto simp: dom_def vk)
    moreover have "\<forall>k\<in>dom v. v k = Some True"
      by (auto simp: dom_def vk split: if_splits)
    ultimately show ?thesis using v by blast
  qed
  with run d False show ?thesis by (auto simp: RRDist_def)
qed

theorem RRDist_round_robin_witness:
  "\<exists>m. RRDist [''A'', ''B'', ''C''] [1, 2, 3, 4] = Inr m \<and> dom m = {1, 2, 3, 4} \<and>
       (\<exists>v. m 2 = Some v \<and> ''B'' \<in> dom v \<and> v ''B'' = Some True) \<and>
       (\<exists>v. m 4 = Some v \<and> dom v = {})"
proof -
  let ?ss = "[''A'', ''B'', ''C'']"
  let ?rs = "[1, 2, 3, 4 :: uuid]"
  from RRDist_round_robin [of ?ss ?rs]
  obtain m where run: "RRDist ?ss ?rs = Inr m" and d: "dom m = set ?rs"
    and each: "\<forall>r\<in>set ?rs. \<exists>v. m r = Some v \<and>
          dom v = {?ss ! i | i. i < length ?ss \<and> ?rs ! (i mod length ?rs) = r} \<and>
          (\<forall>k\<in>dom v. v k = Some True)"
    by blast
  have "(2::uuid) \<in> set ?rs" by simp
  with each obtain v2 where v2: "m 2 = Some v2"
    "dom v2 = {?ss ! i | i. i < length ?ss \<and> ?rs ! (i mod length ?rs) = 2}"
    "\<forall>k\<in>dom v2. v2 k = Some True" by blast
  have "''B'' \<in> dom v2" unfolding v2(2) mem_Collect_eq
    by (rule exI[of _ 1]) simp
  with v2 have p2: "\<exists>v. m 2 = Some v \<and> ''B'' \<in> dom v \<and> v ''B'' = Some True" by blast
  have "(4::uuid) \<in> set ?rs" by simp
  with each obtain v4 where v4: "m 4 = Some v4"
    "dom v4 = {?ss ! i | i. i < length ?ss \<and> ?rs ! (i mod length ?rs) = 4}" by blast
  have "?rs ! (i mod length ?rs) \<noteq> 4" if "i < length ?ss" for i
  proof -
    from that have "i = 0 \<or> i = 1 \<or> i = 2" by auto
    then show ?thesis by auto
  qed
  then have "dom v4 = {}" unfolding v4(2) by simp
  with v4 have p4: "\<exists>v. m 4 = Some v \<and> dom v = {}" by blast
  have "set ?rs = {1, 2, 3, 4}" by simp
  with run d p2 p4 show ?thesis by metis
qed

text \<open>
  Claim C7. For every list of track keys \<open>ss\<close> and every list of subscriber ids \<open>rs\<close>,
  \<^verbatim>\<open>AllDist\<close> returns (it does not panic) a map whose domain is exactly the ids of
  \<open>rs\<close>, and the entry of every subscriber holds exactly the keys of \<open>ss\<close>, each stored
  with the value true. The result is a function of the two lists.
\<close>

theorem AllDist_every_track:
  "\<exists>m. AllDist ss rs = Inr m \<and> dom m = set rs \<and>
       (\<forall>u\<in>set rs. \<exists>v. m u = Some v \<and> dom v = set ss \<and> (\<forall>k\<in>set ss. v k = Some True))"
  by (auto simp: AllDist_def AllDist_receivers_lookup AllDist_senders_lookup dom_def)

theorem AllDist_every_track_witness:
  "\<exists>m. AllDist [''A'', ''B''] [1, 2] = Inr m \<and> dom m = {1, 2} \<and>
       (\<exists>v. m 2 = Some v \<and> dom v = {''A'', ''B''} \<and> v ''A'' = Some True \<and> v ''B'' = Some True)"
  using AllDist_every_track [of "[''A'', ''B'']" "[1, 2]"] by auto

section \<open>Properties of the registry operations\<close>

lemma DeletePeerSender_maps:
  "peerSender (DeletePeerSender s uid) = peerSender s \<and>
   senders (DeletePeerSender s uid) = senders s \<and>
   receivers (DeletePeerSender s uid) = (receivers s)(uid := None)"
  by (simp add: DeletePeerSender_def)

text \<open>
  Claim C1 says that \<^verbatim>\<open>DeletePeerSender(id)\<close> removes the publisher \<open>id\<close> from
  \<^verbatim>\<open>peerSender\<close> and leaves \<^verbatim>\<open>receivers\<close> alone. The source deletes from \<^verbatim>\<open>receivers\<close>
  instead. Here publisher 7 is registered with \<^verbatim>\<open>AddPeerSender\<close>; the DELETE request for
  it is answered 200, and both after \<^verbatim>\<open>DeletePeerSender\<close> alone and after the whole
  request \<^verbatim>\<open>GetPeerSender\<close> still finds the publisher.
\<close>

theorem DeletePeerSender_keeps_publisher:
  "GetPeerSender
     (DeletePeerSender
        (fst (AddPeerSender (NewBroadcaster RRDist) 7 \<lparr>ETag = ''e'', PeerConn = 1\<rparr>)) 7) 7
   = Some \<lparr>ETag = ''e'', PeerConn = 1\<rparr> \<and>
   status (fst (snd (delete_whip 0
      (fst (AddPeerSender (NewBroadcaster RRDist) 7 \<lparr>ETag = ''e'', PeerConn = 1\<rparr>))
      \<lparr>uuid_Parse = (\<lambda>x. if x = ''00000000-0000-0000-0000-000000000007'' then Inr 7
                          else Inl (OtherError ''invalid UUID'')),
       PeerConn_Close = (\<lambda>c. None)\<rparr>
      \<lparr>status = None, header = [], body = []\<rparr>
      \<lparr>Header_Get = (\<lambda>k. []), Body_ReadAll = Inr [], Context_Value = Map.empty,
       URLParam = (\<lambda>k. ''00000000-0000-0000-0000-000000000007'')\<rparr>))) = Some 200 \<and>
   GetPeerSender (fst (delete_whip 0
      (fst (AddPeerSender (NewBroadcaster RRDist) 7 \<lparr>ETag = ''e'', PeerConn = 1\<rparr>))
      \<lparr>uuid_Parse = (\<lambda>x. if x = ''00000000-0000-0000-0000-000000000007'' then Inr 7
                          else Inl (OtherError ''invalid UUID'')),
       PeerConn_Close = (\<lambda>c. None)\<rparr>
      \<lparr>status = None, header = [], body = []\<rparr>
      \<lparr>Header_Get = (\<lambda>k. []), Body_ReadAll = Inr [], Context_Value = Map.empty,
       URLParam = (\<lambda>k. ''00000000-0000-0000-0000-000000000007'')\<rparr>)) 7
   = Some \<lparr>ETag = ''e'', PeerConn = 1\<rparr>"
  by (simp add: GetPeerSender_def DeletePeerSender_def AddPeerSender_def NewBroadcaster_def
      delete_whip_def LogMiddleware_def whipDeleteHandler_def WriteHeader_def StatusOK_def
      LOGGER_def)

text \<open>
  Claim C5. When the composite key \<^verbatim>\<open>StreamID+ID\<close> of the track is not in \<^verbatim>\<open>senders\<close>,
  \<^verbatim>\<open>RemoveSender\<close> returns the registry as it was and spawns no rebalance. When the key
  is present, the entry is deleted, the other maps and the policy are untouched, and a
  rebalance is spawned.
\<close>

theorem RemoveSender_absent_or_present:
  "(senders s (StreamID t @ ID t) = None \<longrightarrow>
      fst (RemoveSender s t) = s \<and> Go_rebalanceReceivers \<notin> set (snd (RemoveSender s t))) \<and>
   (senders s (StreamID t @ ID t) \<noteq> None \<longrightarrow>
      senders (fst (RemoveSender s t)) = (senders s)(StreamID t @ ID t := None) \<and>
      peerSender (fst (RemoveSender s t)) = peerSender s \<and>
      receivers (fst (RemoveSender s t)) = receivers s \<and>
      distributionFunction (fst (RemoveSender s t)) = distributionFunction s \<and>
      Go_rebalanceReceivers \<in> set (snd (RemoveSender s t)))"
  by (auto simp: RemoveSender_def)

theorem RemoveSender_absent_or_present_witness:
  "senders (NewBroadcaster RRDist) (StreamID \<lparr>ID = ''v'', StreamID = ''s'', Codec = ''vp8''\<rparr>
      @ ID \<lparr>ID = ''v'', StreamID = ''s'', Codec = ''vp8''\<rparr>) = None \<and>
   fst (RemoveSender (NewBroadcaster RRDist) \<lparr>ID = ''v'', StreamID = ''s'', Codec = ''vp8''\<rparr>)
     = NewBroadcaster RRDist \<and>
   senders (fst (AddSender None (NewBroadcaster RRDist) \<lparr>ID = ''v'', StreamID = ''s'', Codec = ''vp8''\<rparr>)) ''sv'' \<noteq> None \<and>
   senders (fst (RemoveSender
      (fst (AddSender None (NewBroadcaster RRDist) \<lparr>ID = ''v'', StreamID = ''s'', Codec = ''vp8''\<rparr>))
      \<lparr>ID = ''v'', StreamID = ''s'', Codec = ''vp8''\<rparr>)) ''sv'' = None \<and>
   Go_rebalanceReceivers \<in> set (snd (RemoveSender
      (fst (AddSender None (NewBroadcaster RRDist) \<lparr>ID = ''v'', StreamID = ''s'', Codec = ''vp8''\<rparr>))
      \<lparr>ID = ''v'', StreamID = ''s'', Codec = ''vp8''\<rparr>))"
proof -
  let ?t = "\<lparr>ID = ''v'', StreamID = ''s'', Codec = ''vp8''\<rparr>"
  let ?s0 = "NewBroadcaster RRDist"
  let ?s1 = "fst (AddSender None ?s0 ?t)"
  have a: "senders ?s0 (StreamID ?t @ ID ?t) = None"
    by (simp add: NewBroadcaster_def)
  have p: "senders ?s1 (StreamID ?t @ ID ?t) \<noteq> None"
    by (simp add: AddSender_def NewTrackLocalStaticRTP_def)
  have k: "StreamID ?t @ ID ?t = ''sv''" by simp
  from RemoveSender_absent_or_present [of ?s0 ?t] a
  have r0: "fst (RemoveSender ?s0 ?t) = ?s0" by blast
  from RemoveSender_absent_or_present [of ?s1 ?t] p
  have r1: "senders (fst (RemoveSender ?s1 ?t)) = (senders ?s1)(StreamID ?t @ ID ?t := None)"
    "Go_rebalanceReceivers \<in> set (snd (RemoveSender ?s1 ?t))" by blast+
  from r1(1) have r1': "senders (fst (RemoveSender ?s1 ?t)) ''sv'' = None"
    unfolding k by simp
  from a p r0 r1' r1(2) show ?thesis unfolding k by blast
qed

text \<open>
  Claim C10. For a subscriber id that is not in \<^verbatim>\<open>receivers\<close>, \<^verbatim>\<open>RemoveReceiver\<close>
  returns the registry as it was and has no effect at all: no socket or session is
  closed and no rebalance is spawned.
\<close>

theorem RemoveReceiver_absent:
  "receivers s uid = None \<Longrightarrow> RemoveReceiver s uid = (s, [])"
  by (simp add: RemoveReceiver_def)

theorem RemoveReceiver_absent_witness:
  "receivers (NewBroadcaster RRDist) 5 = None \<and>
   RemoveReceiver (NewBroadcaster RRDist) 5 = (NewBroadcaster RRDist, [])"
proof -
  have h: "receivers (NewBroadcaster RRDist) 5 = None" by (simp add: NewBroadcaster_def)
  from h RemoveReceiver_absent [OF h] show ?thesis by blast
qed

text \<open>
  Claim C9. When \<^verbatim>\<open>NewTrackLocalStaticRTP\<close> fails inside \<^verbatim>\<open>AddSender\<close>, the call
  returns nil, the registry is the one before the call, and neither the forwarder nor a
  rebalance is spawned.
\<close>

theorem AddSender_track_creation_fails:
  "NewTrackLocalStaticRTP fails (Codec t) (ID t) (StreamID t) = Inl err \<Longrightarrow>
   AddSender fails s t = (s', r, effs) \<Longrightarrow>
   r = None \<and> s' = s \<and> Go_rebalanceReceivers \<notin> set effs \<and>
   (\<forall>t1 t2. Go_forwarder t1 t2 \<notin> set effs)"
  by (auto simp: AddSender_def)

theorem AddSender_track_creation_fails_witness:
  "NewTrackLocalStaticRTP (Some (OtherError ''codec'')) ''vp8'' ''v'' ''s'' = Inl (OtherError ''codec'') \<and>
   AddSender (Some (OtherError ''codec'')) (NewBroadcaster RRDist)
      \<lparr>ID = ''v'', StreamID = ''s'', Codec = ''vp8''\<rparr>
     = (NewBroadcaster RRDist, None, [Log ''Unable to create local track'']) \<and>
   Go_rebalanceReceivers \<notin> set [Log ''Unable to create local track'']"
proof -
  let ?t = "\<lparr>ID = ''v'', StreamID = ''s'', Codec = ''vp8''\<rparr>"
  let ?f = "Some (OtherError ''codec'')"
  have h: "NewTrackLocalStaticRTP ?f (Codec ?t) (ID ?t) (StreamID ?t) = Inl (OtherError ''codec'')"
    by (simp add: NewTrackLocalStaticRTP_def)
  have e: "AddSender ?f (NewBroadcaster RRDist) ?t
     = (NewBroadcaster RRDist, None, [Log ''Unable to create local track''])"
    by (simp add: AddSender_def NewTrackLocalStaticRTP_def)
  from AddSender_track_creation_fails [OF h e] h e show ?thesis by simp
qed

section \<open>Properties of the forwarder\<close>

text \<open>
  An iteration goes round the loop again when its read succeeded and its write either
  succeeded or failed with an error that is \<^verbatim>\<open>io.ErrClosedPipe\<close>. A prefix of such
  iterations only writes to the sink.
\<close>

lemma forwarder_looping_prefix:
  assumes "\<forall>x\<in>set pre. \<exists>p w. x = ReadOK p w \<and> (\<forall>err. w = Some err \<longrightarrow> errors_Is err ErrClosedPipe)"
  shows "\<exists>ws. (\<forall>e\<in>set ws. \<exists>p. e = TrackLocal_Write t p) \<and>
           forwarder s t (pre @ io) =
             (fst (forwarder s t io), ws @ fst (snd (forwarder s t io)), snd (snd (forwarder s t io)))"
  using assms
proof (induction pre)
  case Nil
  have "forwarder s t ([] @ io) =
      (fst (forwarder s t io), [] @ fst (snd (forwarder s t io)), snd (snd (forwarder s t io)))"
    by simp
  then show ?case by (intro exI[of _ "[]"]) simp
next
  case (Cons x pre)
  from Cons.prems obtain p w where x: "x = ReadOK p w"
    and w: "\<forall>err. w = Some err \<longrightarrow> errors_Is err ErrClosedPipe" by auto
  from Cons.IH Cons.prems obtain ws where ws: "\<forall>e\<in>set ws. \<exists>p. e = TrackLocal_Write t p"
    and eq: "forwarder s t (pre @ io) =
             (fst (forwarder s t io), ws @ fst (snd (forwarder s t io)), snd (snd (forwarder s t io)))"
    by auto
  have go: "\<not> (case w of None \<Rightarrow> False | Some err \<Rightarrow> \<not> errors_Is err ErrClosedPipe)"
    using w by (cases w) auto
  have "forwarder s t ((x # pre) @ io) =
      (fst (forwarder s t io), (TrackLocal_Write t p # ws) @ fst (snd (forwarder s t io)),
       snd (snd (forwarder s t io)))"
    using go by (simp add: x eq)
  moreover have "\<forall>e\<in>set (TrackLocal_Write t p # ws). \<exists>p. e = TrackLocal_Write t p"
    using ws by auto
  ultimately show ?case by blast
qed

lemma forwarder_cases:
  "forwarder s t io = (s', effs, st) \<Longrightarrow>
   (s' = s \<and> (\<forall>e\<in>set effs. \<exists>p. e = TrackLocal_Write t p)) \<or>
   (\<exists>pre e rest. io = pre @ ReadError e # rest \<and>
      (\<forall>x\<in>set pre. \<exists>p w. x = ReadOK p w \<and> (\<forall>err. w = Some err \<longrightarrow> errors_Is err ErrClosedPipe)))"
proof (induction io arbitrary: s' effs st)
  case Nil
  then show ?case by simp
next
  case (Cons x io)
  show ?case
  proof (cases x)
    case (ReadError e)
    then have "x # io = [] @ ReadError e # io" by simp
    then show ?thesis by (intro disjI2 exI[of _ "[]"] exI[of _ e] exI[of _ io]) simp
  next
    case (ReadOK p w)
    show ?thesis
    proof (cases "case w of None \<Rightarrow> False | Some err \<Rightarrow> \<not> errors_Is err ErrClosedPipe")
      case True
      with Cons.prems ReadOK show ?thesis by auto
    next
      case False
      obtain s1 e1 st1 where r: "forwarder s t io = (s1, e1, st1)" by (cases "forwarder s t io")
      with False Cons.prems ReadOK have res: "s' = s1" "effs = TrackLocal_Write t p # e1" by auto
      from False have w: "\<forall>err. w = Some err \<longrightarrow> errors_Is err ErrClosedPipe"
        by (cases w) auto
      from Cons.IH[OF r] show ?thesis
      proof
        assume "s1 = s \<and> (\<forall>e\<in>set e1. \<exists>p. e = TrackLocal_Write t p)"
        with res show ?thesis by auto
      next
        assume "\<exists>pre e rest. io = pre @ ReadError e # rest \<and>
          (\<forall>x\<in>set pre. \<exists>p w. x = ReadOK p w \<and> (\<forall>err. w = Some err \<longrightarrow> errors_Is err ErrClosedPipe))"
        then obtain pre e rest where io: "io = pre @ ReadError e # rest"
          and pre: "\<forall>x\<in>set pre. \<exists>p w. x = ReadOK p w \<and> (\<forall>err. w = Some err \<longrightarrow> errors_Is err ErrClosedPipe)"
          by blast
        have "x # io = (x # pre) @ ReadError e # rest" using io by simp
        moreover have "\<forall>y\<in>set (x # pre). \<exists>p w. y = ReadOK p w \<and> (\<forall>err. w = Some err \<longrightarrow> errors_Is err ErrClosedPipe)"
          using pre ReadOK w by auto
        ultimately show ?thesis by blast
      qed
    qed
  qed
qed

lemma RemoveSender_effect:
  "StreamID t @ ID t \<notin> dom (senders (fst (RemoveSender s t))) \<and>
   peerSender (fst (RemoveSender s t)) = peerSender s \<and>
   receivers (fst (RemoveSender s t)) = receivers s \<and>
   (StreamID t @ ID t \<in> dom (senders s) \<longrightarrow> Go_rebalanceReceivers \<in> set (snd (RemoveSender s t)))"
  by (auto simp: RemoveSender_def split: option.splits)

lemma forwarder_looping_writes:
  assumes "\<forall>x\<in>set pws. \<forall>e. snd x = Some e \<longrightarrow> errors_Is e ErrClosedPipe"
  shows "forwarder s t (map (\<lambda>x. ReadOK (fst x) (snd x)) pws @ io) =
           (fst (forwarder s t io),
            map (\<lambda>x. TrackLocal_Write t (fst x)) pws @ fst (snd (forwarder s t io)),
            snd (snd (forwarder s t io)))"
  using assms
proof (induction pws)
  case Nil
  then show ?case by simp
next
  case (Cons x pws)
  then have go: "\<not> (case snd x of None \<Rightarrow> False | Some err \<Rightarrow> \<not> errors_Is err ErrClosedPipe)"
    by (cases "snd x") auto
  from Cons have ih: "forwarder s t (map (\<lambda>x. ReadOK (fst x) (snd x)) pws @ io) =
           (fst (forwarder s t io),
            map (\<lambda>x. TrackLocal_Write t (fst x)) pws @ fst (snd (forwarder s t io)),
            snd (snd (forwarder s t io)))" by simp
  show ?case using go by (simp add: ih)
qed

text \<open>
  Claim C3, amended. Take a run of the forwarder that has gone round the loop on the
  packets \<open>pws\<close> and then reads \<open>pkt\<close>, whose write fails with \<open>err\<close>. If \<open>err\<close> is
  \<^verbatim>\<open>io.ErrClosedPipe\<close>, the error is ignored and the loop goes on with the next read: the
  run is the writes so far, the write of \<open>pkt\<close>, and then whatever the forwarder does on
  the rest of the input; it is the run the forwarder makes when that write succeeds.
  For any other error the forwarder returns at once: it has only written to the sink, the
  registry is the one it started with, and the rest of the input is not read.
\<close>

theorem forwarder_write_error:
  assumes "\<forall>x\<in>set pws. \<forall>e. snd x = Some e \<longrightarrow> errors_Is e ErrClosedPipe"
  shows "forwarder s t (map (\<lambda>x. ReadOK (fst x) (snd x)) pws @ ReadOK pkt (Some err) # rest) =
           (if errors_Is err ErrClosedPipe
            then (fst (forwarder s t rest),
                  map (\<lambda>x. TrackLocal_Write t (fst x)) pws @
                    TrackLocal_Write t pkt # fst (snd (forwarder s t rest)),
                  snd (snd (forwarder s t rest)))
            else (s, map (\<lambda>x. TrackLocal_Write t (fst x)) pws @ [TrackLocal_Write t pkt],
                  Returned)) \<and>
         (errors_Is err ErrClosedPipe \<longrightarrow>
            forwarder s t (map (\<lambda>x. ReadOK (fst x) (snd x)) pws @ ReadOK pkt (Some err) # rest) =
            forwarder s t (map (\<lambda>x. ReadOK (fst x) (snd x)) pws @ ReadOK pkt None # rest))"
proof -
  have hd: "forwarder s t (ReadOK pkt (Some err) # rest) =
      (if errors_Is err ErrClosedPipe
       then (fst (forwarder s t rest), TrackLocal_Write t pkt # fst (snd (forwarder s t rest)),
             snd (snd (forwarder s t rest)))
       else (s, [TrackLocal_Write t pkt], Returned))"
    by (simp add: case_prod_beta)
  have ok: "forwarder s t (ReadOK pkt None # rest) =
      (fst (forwarder s t rest), TrackLocal_Write t pkt # fst (snd (forwarder s t rest)),
       snd (snd (forwarder s t rest)))"
    by (simp add: case_prod_beta)
  show ?thesis
    unfolding forwarder_looping_writes[OF assms, of s t "ReadOK pkt (Some err) # rest"]
      forwarder_looping_writes[OF assms, of s t "ReadOK pkt None # rest"] hd ok
    by simp
qed

theorem forwarder_write_error_witness:
  "errors_Is (Wrapped ''write'' ErrClosedPipe) ErrClosedPipe \<and>
   forwarder (NewBroadcaster RRDist) \<lparr>ID = ''v'', StreamID = ''s'', Codec = ''vp8''\<rparr>
     [ReadOK [1] None, ReadOK [2] (Some (Wrapped ''write'' ErrClosedPipe)), ReadOK [3] None]
   = (NewBroadcaster RRDist,
      [TrackLocal_Write \<lparr>ID = ''v'', StreamID = ''s'', Codec = ''vp8''\<rparr> [1],
       TrackLocal_Write \<lparr>ID = ''v'', StreamID = ''s'', Codec = ''vp8''\<rparr> [2],
       TrackLocal_Write \<lparr>ID = ''v'', StreamID = ''s'', Codec = ''vp8''\<rparr> [3]],
      BlockedInRead) \<and>
   \<not> errors_Is (OtherError ''srtp'') ErrClosedPipe \<and>
   forwarder (NewBroadcaster RRDist) \<lparr>ID = ''v'', StreamID = ''s'', Codec = ''vp8''\<rparr>
     [ReadOK [1] None, ReadOK [2] (Some (OtherError ''srtp'')), ReadOK [3] None]
   = (NewBroadcaster RRDist,
      [TrackLocal_Write \<lparr>ID = ''v'', StreamID = ''s'', Codec = ''vp8''\<rparr> [1],
       TrackLocal_Write \<lparr>ID = ''v'', StreamID = ''s'', Codec = ''vp8''\<rparr> [2]],
      Returned)"
proof -
  let ?t = "\<lparr>ID = ''v'', StreamID = ''s'', Codec = ''vp8''\<rparr>"
  let ?s = "NewBroadcaster RRDist"
  let ?pws = "[([1], None)] :: (8 word list \<times> go_error option) list"
  have h: "\<forall>x\<in>set ?pws. \<forall>e. snd x = Some e \<longrightarrow> errors_Is e ErrClosedPipe" by simp
  have c: "errors_Is (Wrapped ''write'' ErrClosedPipe) ErrClosedPipe" by simp
  have n: "\<not> errors_Is (OtherError ''srtp'') ErrClosedPipe" by simp
  have rest: "forwarder ?s ?t [ReadOK [3] None] = (?s, [TrackLocal_Write ?t [3]], BlockedInRead)"
    by simp
  from forwarder_write_error [OF h, of ?s ?t "[2]" "Wrapped ''write'' ErrClosedPipe" "[ReadOK [3] None]"]
  have a: "forwarder ?s ?t
     [ReadOK [1] None, ReadOK [2] (Some (Wrapped ''write'' ErrClosedPipe)), ReadOK [3] None]
   = (?s, [TrackLocal_Write ?t [1], TrackLocal_Write ?t [2], TrackLocal_Write ?t [3]], BlockedInRead)"
    unfolding rest if_P[OF c] by simp
  from forwarder_write_error [OF h, of ?s ?t "[2]" "OtherError ''srtp''" "[ReadOK [3] None]"]
  have b: "forwarder ?s ?t
     [ReadOK [1] None, ReadOK [2] (Some (OtherError ''srtp'')), ReadOK [3] None]
   = (?s, [TrackLocal_Write ?t [1], TrackLocal_Write ?t [2]], Returned)"
    unfolding if_not_P[OF n] by simp
  from a b c n show ?thesis by blast
qed

text \<open>
  The claim as stated fails: after a write that failed with \<^verbatim>\<open>io.ErrClosedPipe\<close> the
  forwarder has not exited. It reads and writes the next packet and waits for a third.
\<close>

theorem forwarder_closed_pipe_continues:
  "forwarder (NewBroadcaster RRDist) \<lparr>ID = ''v'', StreamID = ''s'', Codec = ''vp8''\<rparr>
     [ReadOK [1] (Some ErrClosedPipe), ReadOK [2] None]
   = (NewBroadcaster RRDist,
      [TrackLocal_Write \<lparr>ID = ''v'', StreamID = ''s'', Codec = ''vp8''\<rparr> [1],
       TrackLocal_Write \<lparr>ID = ''v'', StreamID = ''s'', Codec = ''vp8''\<rparr> [2]],
      BlockedInRead)"
  by simp

text \<open>
  Claim C4. Take any run of the forwarder. If the run reaches a read that fails, the
  forwarder has returned, the registry is the result of \<^verbatim>\<open>RemoveSender\<close> on the
  forwarder's track, the track's key is no longer in \<^verbatim>\<open>senders\<close>, the other two maps
  are untouched, and a rebalance was spawned if the key was registered. If the run reaches
  no failed read, the registry is unchanged and no rebalance was spawned: the failed read
  is the only way the forwarder removes the track.
\<close>

theorem forwarder_read_error:
  assumes "forwarder s t io = (s', effs, st)"
  shows "if \<exists>pre e rest. io = pre @ ReadError e # rest \<and>
              (\<forall>x\<in>set pre. \<exists>p w. x = ReadOK p w \<and>
                 (\<forall>err. w = Some err \<longrightarrow> errors_Is err ErrClosedPipe))
         then st = Returned \<and> s' = fst (RemoveSender s t) \<and>
              StreamID t @ ID t \<notin> dom (senders s') \<and>
              peerSender s' = peerSender s \<and> receivers s' = receivers s \<and>
              (StreamID t @ ID t \<in> dom (senders s) \<longrightarrow> Go_rebalanceReceivers \<in> set effs)
         else s' = s \<and> Go_rebalanceReceivers \<notin> set effs"
proof (cases "\<exists>pre e rest. io = pre @ ReadError e # rest \<and>
              (\<forall>x\<in>set pre. \<exists>p w. x = ReadOK p w \<and>
                 (\<forall>err. w = Some err \<longrightarrow> errors_Is err ErrClosedPipe))")
  case True
  then obtain pre e rest where io: "io = pre @ ReadError e # rest"
    and pre: "\<forall>x\<in>set pre. \<exists>p w. x = ReadOK p w \<and> (\<forall>err. w = Some err \<longrightarrow> errors_Is err ErrClosedPipe)"
    by blast
  have hd: "forwarder s t (ReadError e # rest) =
      (fst (RemoveSender s t), snd (RemoveSender s t), Returned)"
    by (simp add: case_prod_beta)
  from forwarder_looping_prefix[OF pre, of t s "ReadError e # rest"] obtain ws where
    "forwarder s t io = (fst (RemoveSender s t), ws @ snd (RemoveSender s t), Returned)"
    unfolding io hd by auto
  with assms have res: "s' = fst (RemoveSender s t)" "effs = ws @ snd (RemoveSender s t)" "st = Returned"
    by auto
  from RemoveSender_effect[of t s] res
  have "st = Returned \<and> s' = fst (RemoveSender s t) \<and>
              StreamID t @ ID t \<notin> dom (senders s') \<and>
              peerSender s' = peerSender s \<and> receivers s' = receivers s \<and>
              (StreamID t @ ID t \<in> dom (senders s) \<longrightarrow> Go_rebalanceReceivers \<in> set effs)"
    by auto
  then show ?thesis by (subst if_P[OF True])
next
  case False
  with forwarder_cases[OF assms] have "s' = s" "\<forall>e\<in>set effs. \<exists>p. e = TrackLocal_Write t p"
    by blast+
  then have "s' = s \<and> Go_rebalanceReceivers \<notin> set effs" by auto
  then show ?thesis by (subst if_not_P[OF False])
qed

theorem forwarder_read_error_witness:
  "snd (snd (forwarder
      (fst (AddSender None (NewBroadcaster RRDist) \<lparr>ID = ''v'', StreamID = ''s'', Codec = ''vp8''\<rparr>))
      \<lparr>ID = ''v'', StreamID = ''s'', Codec = ''vp8''\<rparr>
      [ReadOK [1] None, ReadError EOF, ReadOK [2] None])) = Returned \<and>
   ''sv'' \<in> dom (senders
      (fst (AddSender None (NewBroadcaster RRDist) \<lparr>ID = ''v'', StreamID = ''s'', Codec = ''vp8''\<rparr>))) \<and>
   ''sv'' \<notin> dom (senders (fst (forwarder
      (fst (AddSender None (NewBroadcaster RRDist) \<lparr>ID = ''v'', StreamID = ''s'', Codec = ''vp8''\<rparr>))
      \<lparr>ID = ''v'', StreamID = ''s'', Codec = ''vp8''\<rparr>
      [ReadOK [1] None, ReadError EOF, ReadOK [2] None]))) \<and>
   Go_rebalanceReceivers \<in> set (fst (snd (forwarder
      (fst (AddSender None (NewBroadcaster RRDist) \<lparr>ID = ''v'', StreamID = ''s'', Codec = ''vp8''\<rparr>))
      \<lparr>ID = ''v'', StreamID = ''s'', Codec = ''vp8''\<rparr>
      [ReadOK [1] None, ReadError EOF, ReadOK [2] None])))"
proof -
  let ?t = "\<lparr>ID = ''v'', StreamID = ''s'', Codec = ''vp8''\<rparr>"
  let ?s1 = "fst (AddSender None (NewBroadcaster RRDist) ?t)"
  let ?io = "[ReadOK [1] None, ReadError EOF, ReadOK [2] None]"
  let ?run = "forwarder ?s1 ?t ?io"
  have c: "\<exists>pre e rest. ?io = pre @ ReadError e # rest \<and>
              (\<forall>x\<in>set pre. \<exists>p w. x = ReadOK p w \<and>
                 (\<forall>err. w = Some err \<longrightarrow> errors_Is err ErrClosedPipe))"
    by (rule exI[of _ "[ReadOK [1] None]"], rule exI[of _ EOF], rule exI[of _ "[ReadOK [2] None]"])
       simp
  have k: "StreamID ?t @ ID ?t = ''sv''" by simp
  have r: "?run = (fst ?run, fst (snd ?run), snd (snd ?run))" by (rule prod.collapse[symmetric, THEN trans]) simp
  have reg: "''sv'' \<in> dom (senders ?s1)"
    by (simp add: AddSender_def NewTrackLocalStaticRTP_def)
  from forwarder_read_error [OF r]
  have "snd (snd ?run) = Returned \<and> fst ?run = fst (RemoveSender ?s1 ?t) \<and>
        StreamID ?t @ ID ?t \<notin> dom (senders (fst ?run)) \<and>
        peerSender (fst ?run) = peerSender ?s1 \<and> receivers (fst ?run) = receivers ?s1 \<and>
        (StreamID ?t @ ID ?t \<in> dom (senders ?s1) \<longrightarrow> Go_rebalanceReceivers \<in> set (fst (snd ?run)))"
    unfolding if_P[OF c] .
  with reg show ?thesis unfolding k by blast
qed

section \<open>Properties of a rebalance\<close>

lemma pruneClosedConnections_effects:
  "\<forall>e\<in>set (snd (pruneClosedConnections env us m)).
     \<exists>sock. e = SignalSocket_Close sock StatusGoingAway ''WebRTC connection closed''"
proof (induction us arbitrary: m)
  case Nil
  then show ?case by simp
next
  case (Cons u us)
  show ?case
  proof (cases "m u")
    case None
    with Cons show ?thesis by simp
  next
    case (Some rs)
    obtain m' effs where r: "pruneClosedConnections env us (m(u := None)) = (m', effs)"
      by (cases "pruneClosedConnections env us (m(u := None))")
    have "\<forall>e\<in>set effs.
       \<exists>sock. e = SignalSocket_Close sock StatusGoingAway ''WebRTC connection closed''"
      using Cons[of "m(u := None)"] unfolding r by simp
    with Some r Cons[of m] show ?thesis by auto
  qed
qed

lemma detach_loop_effects:
  "\<forall>e\<in>set (snd (detach_loop conn v sds existing)). \<exists>x. e = Connection_RemoveTrack conn x"
proof (induction sds arbitrary: existing)
  case Nil
  then show ?case by simp
next
  case (Cons sd sds)
  show ?case
  proof (cases "sender_Track sd")
    case None
    with Cons show ?thesis by simp
  next
    case (Some tr)
    obtain ex effs where r:
      "detach_loop conn v sds (existing(StreamID tr @ ID tr \<mapsto> True)) = (ex, effs)"
      by (cases "detach_loop conn v sds (existing(StreamID tr @ ID tr \<mapsto> True))")
    have "\<forall>e\<in>set effs. \<exists>x. e = Connection_RemoveTrack conn x"
      using Cons[of "existing(StreamID tr @ ID tr \<mapsto> True)"] unfolding r by simp
    with Some r show ?thesis by auto
  qed
qed

lemma attach_loop_effects:
  "\<forall>e\<in>set (attach_loop conn snds existing ks). \<exists>x. e = Connection_AddTrack conn x"
  by (induction ks) auto

lemma reconcile_split:
  "\<exists>diff. reconcile env snds v_order receiver v = diff @ send_offer env receiver \<and>
     (\<forall>e\<in>set diff. (\<exists>x. e = Connection_RemoveTrack (Connection receiver) x) \<or>
                     (\<exists>x. e = Connection_AddTrack (Connection receiver) x))"
proof -
  obtain ex effs where d:
    "detach_loop (Connection receiver) v (GetSenders env (Connection receiver)) Map.empty = (ex, effs)"
    by (cases "detach_loop (Connection receiver) v (GetSenders env (Connection receiver)) Map.empty")
  let ?diff = "effs @ attach_loop (Connection receiver) snds ex v_order"
  have "reconcile env snds v_order receiver v = ?diff @ send_offer env receiver"
    by (simp add: reconcile_def d)
  moreover have "\<forall>e\<in>set ?diff. (\<exists>x. e = Connection_RemoveTrack (Connection receiver) x) \<or>
                     (\<exists>x. e = Connection_AddTrack (Connection receiver) x)"
    using detach_loop_effects[of "Connection receiver" v "GetSenders env (Connection receiver)" Map.empty]
      attach_loop_effects[of "Connection receiver" snds ex v_order] d
    by auto
  ultimately show ?thesis by blast
qed

lemma reconcile_loop_passes:
  assumes "\<forall>u. match u \<noteq> None \<longrightarrow> receivers s u \<noteq> None"
    and "\<forall>u\<in>set us. match u \<noteq> None"
  shows "reconcile_loop env ord s match us =
           (concat (map (\<lambda>u. reconcile env (senders s) (range_target ord u)
                                 (the (receivers s u)) (the (match u))) us), None)"
  using assms(2)
proof (induction us)
  case Nil
  then show ?case by simp
next
  case (Cons a us)
  then obtain va where va: "match a = Some va" by auto
  with assms(1) obtain ra where ra: "receivers s a = Some ra" by auto
  from Cons have "reconcile_loop env ord s match us =
           (concat (map (\<lambda>u. reconcile env (senders s) (range_target ord u)
                                 (the (receivers s u)) (the (match u))) us), None)" by simp
  with va ra show ?case by simp
qed

lemma rebalanceReceivers_registry:
  "fst (rebalanceReceivers env ord s) =
     s\<lparr>receivers := fst (pruneClosedConnections env (range_prune ord) (receivers s))\<rparr>"
  by (simp add: rebalanceReceivers_def case_prod_beta split: sum.splits)

lemma AllDist_dom: "\<exists>m. AllDist ss rs = Inr m \<and> dom m = set rs"
  by (auto simp: AllDist_def AllDist_receivers_lookup dom_def)

lemma RRDist_dom: "\<exists>m. RRDist ss rs = Inr m \<and> dom m = set rs"
proof (cases "rs = []")
  case True
  then show ?thesis by (simp add: RRDist_def)
next
  case False
  have "dom (RRDist_init rs Map.empty) = set rs"
    by (auto simp: RRDist_init_lookup dom_def)
  from RRDist_assign_inv[OF False this, of 0 ss] False show ?thesis
    by (auto simp: RRDist_def)
qed

text \<open>
  With either policy of the source, and the receivers listed from the pruned map, the
  output of the policy names registered subscribers only.
\<close>

lemma shipped_policy_output_registered:
  assumes "distributionFunction s = RRDist \<or> distributionFunction s = AllDist"
    and "set (range_receivers ord) =
           dom (fst (pruneClosedConnections env (range_prune ord) (receivers s)))"
    and "distributionFunction s (range_senders ord) (range_receivers ord) = Inr match"
  shows "dom match \<subseteq> dom (receivers (fst (rebalanceReceivers env ord s)))"
proof -
  obtain m1 m2 where
    m1: "RRDist (range_senders ord) (range_receivers ord) = Inr m1"
        "dom m1 = set (range_receivers ord)" and
    m2: "AllDist (range_senders ord) (range_receivers ord) = Inr m2"
        "dom m2 = set (range_receivers ord)"
    using RRDist_dom[of "range_senders ord" "range_receivers ord"]
      AllDist_dom[of "range_senders ord" "range_receivers ord"] by blast
  from assms(1,3) m1(1) m2(1) have "match = m1 \<or> match = m2" by auto
  with m1(2) m2(2) have "dom match = set (range_receivers ord)" by blast
  with assms(2) show ?thesis unfolding rebalanceReceivers_registry by simp
qed

text \<open>
  Claim C6, amended. Take a rebalance whose policy output names registered subscribers
  only. It returns without a panic, and its effects are the closes of the pruned sockets
  followed by one pass per subscriber of the policy's output, in the order of the
  \<^verbatim>\<open>range\<close>. The pass of a subscriber is its diff (calls of \<^verbatim>\<open>RemoveTrack\<close> and
  \<^verbatim>\<open>AddTrack\<close> on its session, possibly none) followed in every case by the call of
  \<^verbatim>\<open>CreateOffer\<close>. If \<^verbatim>\<open>CreateOffer\<close> fails, the pass ends with a log: nothing is
  installed or sent. If it succeeds, the offer is passed to \<^verbatim>\<open>SetLocalDescription\<close> (a
  failure there is only logged), and the pass ends with the text message written on the
  subscriber's signaling socket, or with a log when one of the two \<^verbatim>\<open>json.Marshal\<close>
  calls fails. What follows the diff does not depend on the diff.
\<close>

theorem rebalance_sends_offer:
  assumes "distributionFunction s (range_senders ord) (range_receivers ord) = Inr match"
    and "range_of match (range_match ord)"
    and "dom match \<subseteq> dom (receivers (fst (rebalanceReceivers env ord s)))"
  shows "\<exists>s' pruned pass.
     rebalanceReceivers env ord s = (s', pruned @ concat (map pass (range_match ord)), None) \<and>
     (\<forall>e\<in>set pruned. \<exists>sock. e = SignalSocket_Close sock StatusGoingAway ''WebRTC connection closed'') \<and>
     (\<forall>u\<in>set (range_match ord). \<exists>receiver diff.
        receivers s' u = Some receiver \<and>
        (\<forall>e\<in>set diff. (\<exists>x. e = Connection_RemoveTrack (Connection receiver) x) \<or>
                        (\<exists>x. e = Connection_AddTrack (Connection receiver) x)) \<and>
        (case CreateOffer env (Connection receiver) of
           Inl err \<Rightarrow>
             pass u = diff @ [Connection_CreateOffer (Connection receiver),
                              Log ''Unable to create offer'']
         | Inr offer \<Rightarrow>
             \<exists>tail. pass u =
                 diff @ [Connection_CreateOffer (Connection receiver),
                         Connection_SetLocalDescription (Connection receiver) offer]
                 @ (case SetLocalDescription env (Connection receiver) offer of
                      Some err \<Rightarrow> [Log_error err] | None \<Rightarrow> [])
                 @ Log ''Sending offer'' # tail \<and>
               (case json_Marshal_offer env offer of
                  Inl err \<Rightarrow> tail = [Log ''Unable to marshal offer to json'']
                | Inr offerString \<Rightarrow>
                    (case json_Marshal_message env \<lparr>Event = ''offer'', Data = offerString\<rparr> of
                       Inl err \<Rightarrow> tail = [Log ''Unable to marshal offer to json'']
                     | Inr messageString \<Rightarrow>
                         tail = [SignalSocket_Write (SignalSocket receiver) MessageText
                                   messageString]))))"
proof -
  obtain m pruned where pr: "pruneClosedConnections env (range_prune ord) (receivers s) = (m, pruned)"
    by (cases "pruneClosedConnections env (range_prune ord) (receivers s)")
  let ?s' = "s\<lparr>receivers := m\<rparr>"
  let ?pass = "\<lambda>u. reconcile env (senders ?s') (range_target ord u)
                      (the (receivers ?s' u)) (the (match u))"
  from assms(3) pr have reg: "\<forall>u. match u \<noteq> None \<longrightarrow> receivers ?s' u \<noteq> None"
    unfolding rebalanceReceivers_registry by auto
  from assms(2) have inm: "\<forall>u\<in>set (range_match ord). match u \<noteq> None"
    by (auto simp: range_of_def)
  have run: "rebalanceReceivers env ord s =
      (?s', pruned @ concat (map ?pass (range_match ord)), None)"
    using assms(1) pr reconcile_loop_passes[OF reg inm, of env ord]
    by (simp add: rebalanceReceivers_def)
  have pe: "\<forall>e\<in>set pruned. \<exists>sock. e = SignalSocket_Close sock StatusGoingAway ''WebRTC connection closed''"
    using pruneClosedConnections_effects[of env "range_prune ord" "receivers s"] pr by simp
  have each: "\<exists>receiver diff.
        receivers ?s' u = Some receiver \<and>
        (\<forall>e\<in>set diff. (\<exists>x. e = Connection_RemoveTrack (Connection receiver) x) \<or>
                        (\<exists>x. e = Connection_AddTrack (Connection receiver) x)) \<and>
        (case CreateOffer env (Connection receiver) of
           Inl err \<Rightarrow>
             ?pass u = diff @ [Connection_CreateOffer (Connection receiver),
                              Log ''Unable to create offer'']
         | Inr offer \<Rightarrow>
             \<exists>tail. ?pass u =
                 diff @ [Connection_CreateOffer (Connection receiver),
                         Connection_SetLocalDescription (Connection receiver) offer]
                 @ (case SetLocalDescription env (Connection receiver) offer of
                      Some err \<Rightarrow> [Log_error err] | None \<Rightarrow> [])
                 @ Log ''Sending offer'' # tail \<and>
               (case json_Marshal_offer env offer of
                  Inl err \<Rightarrow> tail = [Log ''Unable to marshal offer to json'']
                | Inr offerString \<Rightarrow>
                    (case json_Marshal_message env \<lparr>Event = ''offer'', Data = offerString\<rparr> of
                       Inl err \<Rightarrow> tail = [Log ''Unable to marshal offer to json'']
                     | Inr messageString \<Rightarrow>
                         tail = [SignalSocket_Write (SignalSocket receiver) MessageText
                                   messageString])))"
    if u: "u \<in> set (range_match ord)" for u
  proof -
    from u inm reg obtain receiver where r: "receivers ?s' u = Some receiver" by blast
    from reconcile_split[of env "senders ?s'" "range_target ord u" receiver "the (match u)"]
    obtain diff where d: "?pass u = diff @ send_offer env receiver"
      and de: "\<forall>e\<in>set diff. (\<exists>x. e = Connection_RemoveTrack (Connection receiver) x) \<or>
                        (\<exists>x. e = Connection_AddTrack (Connection receiver) x)"
      using r by auto
    have "case CreateOffer env (Connection receiver) of
           Inl err \<Rightarrow>
             ?pass u = diff @ [Connection_CreateOffer (Connection receiver),
                              Log ''Unable to create offer'']
         | Inr offer \<Rightarrow>
             \<exists>tail. ?pass u =
                 diff @ [Connection_CreateOffer (Connection receiver),
                         Connection_SetLocalDescription (Connection receiver) offer]
                 @ (case SetLocalDescription env (Connection receiver) offer of
                      Some err \<Rightarrow> [Log_error err] | None \<Rightarrow> [])
                 @ Log ''Sending offer'' # tail \<and>
               (case json_Marshal_offer env offer of
                  Inl err \<Rightarrow> tail = [Log ''Unable to marshal offer to json'']
                | Inr offerString \<Rightarrow>
                    (case json_Marshal_message env \<lparr>Event = ''offer'', Data = offerString\<rparr> of
                       Inl err \<Rightarrow> tail = [Log ''Unable to marshal offer to json'']
                     | Inr messageString \<Rightarrow>
                         tail = [SignalSocket_Write (SignalSocket receiver) MessageText
                                   messageString]))"
      unfolding d by (simp add: send_offer_def split: sum.splits option.splits)
    with r de show ?thesis by blast
  qed
  from run pe each show ?thesis by blast
qed

text \<open>
  The witness is a rebalance with an empty diff: the subscriber's only target track is
  attached already, no track is added or removed, and the offer is sent all the same.
\<close>

theorem rebalance_sends_offer_witness:
  "rebalanceReceivers
     \<lparr>ConnectionState = (\<lambda>c. PeerConnectionStateConnected),
        GetSenders = (\<lambda>c. [\<lparr>sender_handle = 0,
           sender_Track = Some \<lparr>ID = ''v'', StreamID = ''s'', Codec = ''vp8''\<rparr>\<rparr>]),
        CreateOffer = (\<lambda>c. Inr \<lparr>Type = SDPTypeOffer, SDP = ''v=0''\<rparr>),
        SetLocalDescription = (\<lambda>c d. None),
        json_Marshal_offer = (\<lambda>d. Inr ''sdp''),
        json_Marshal_message = (\<lambda>m. Inr (Event m @ '':'' @ Data m))\<rparr>
     \<lparr>range_prune = [1], range_receivers = [1], range_senders = [''sv''],
        range_match = [1], range_target = (\<lambda>u. [''sv''])\<rparr>
     \<lparr>peerSender = Map.empty,
        senders = [''sv'' \<mapsto> \<lparr>ID = ''v'', StreamID = ''s'', Codec = ''vp8''\<rparr>],
        receivers = [1 \<mapsto> \<lparr>Connection = 10, SignalSocket = 20\<rparr>],
        distributionFunction = RRDist\<rparr>
   = (\<lparr>peerSender = Map.empty,
        senders = [''sv'' \<mapsto> \<lparr>ID = ''v'', StreamID = ''s'', Codec = ''vp8''\<rparr>],
        receivers = [1 \<mapsto> \<lparr>Connection = 10, SignalSocket = 20\<rparr>],
        distributionFunction = RRDist\<rparr>,
      [Connection_CreateOffer 10,
       Connection_SetLocalDescription 10 \<lparr>Type = SDPTypeOffer, SDP = ''v=0''\<rparr>,
       Log ''Sending offer'',
       SignalSocket_Write 20 MessageText ''offer:sdp''],
      None) \<and>
   SignalSocket_Write 20 MessageText ''offer:sdp'' \<in> set
      [Connection_CreateOffer 10,
       Connection_SetLocalDescription 10 \<lparr>Type = SDPTypeOffer, SDP = ''v=0''\<rparr>,
       Log ''Sending offer'',
       SignalSocket_Write 20 MessageText ''offer:sdp'']"
proof -
  let ?env = "\<lparr>ConnectionState = (\<lambda>c. PeerConnectionStateConnected),
        GetSenders = (\<lambda>c. [\<lparr>sender_handle = 0,
           sender_Track = Some \<lparr>ID = ''v'', StreamID = ''s'', Codec = ''vp8''\<rparr>\<rparr>]),
        CreateOffer = (\<lambda>c. Inr \<lparr>Type = SDPTypeOffer, SDP = ''v=0''\<rparr>),
        SetLocalDescription = (\<lambda>c d. None),
        json_Marshal_offer = (\<lambda>d. Inr ''sdp''),
        json_Marshal_message = (\<lambda>m. Inr (Event m @ '':'' @ Data m))\<rparr>"
  let ?ord = "\<lparr>range_prune = [1], range_receivers = [1], range_senders = [''sv''],
        range_match = [1], range_target = (\<lambda>u. [''sv''])\<rparr>"
  let ?s = "\<lparr>peerSender = Map.empty,
        senders = [''sv'' \<mapsto> \<lparr>ID = ''v'', StreamID = ''s'', Codec = ''vp8''\<rparr>],
        receivers = [1 \<mapsto> \<lparr>Connection = 10, SignalSocket = 20\<rparr>],
        distributionFunction = RRDist\<rparr>"
  let ?effs = "[Connection_CreateOffer 10,
       Connection_SetLocalDescription 10 \<lparr>Type = SDPTypeOffer, SDP = ''v=0''\<rparr>,
       Log ''Sending offer'',
       SignalSocket_Write 20 MessageText ''offer:sdp'']"
  let ?match = "[1 \<mapsto> [''sv'' \<mapsto> True]] :: assignment"
  have h1: "rebalanceReceivers ?env ?ord ?s = (?s, ?effs, None)"
    by (simp add: rebalanceReceivers_def RRDist_def reconcile_def send_offer_def)
  have h2: "distributionFunction ?s (range_senders ?ord) (range_receivers ?ord) = Inr ?match"
    by (simp add: RRDist_def)
  have h3: "range_of ?match (range_match ?ord)"
    by (simp add: range_of_def)
  have h4: "dom ?match \<subseteq> dom (receivers (fst (rebalanceReceivers ?env ?ord ?s)))"
    unfolding h1 by simp
  from rebalance_sends_offer [OF h2 h3 h4]
  obtain s' pruned pass where
    run: "rebalanceReceivers ?env ?ord ?s = (s', pruned @ concat (map pass (range_match ?ord)), None)"
    and each: "\<forall>u\<in>set (range_match ?ord). \<exists>receiver diff.
        receivers s' u = Some receiver \<and>
        (\<forall>e\<in>set diff. (\<exists>x. e = Connection_RemoveTrack (Connection receiver) x) \<or>
                        (\<exists>x. e = Connection_AddTrack (Connection receiver) x)) \<and>
        (case CreateOffer ?env (Connection receiver) of
           Inl err \<Rightarrow>
             pass u = diff @ [Connection_CreateOffer (Connection receiver),
                              Log ''Unable to create offer'']
         | Inr offer \<Rightarrow>
             \<exists>tail. pass u =
                 diff @ [Connection_CreateOffer (Connection receiver),
                         Connection_SetLocalDescription (Connection receiver) offer]
                 @ (case SetLocalDescription ?env (Connection receiver) offer of
                      Some err \<Rightarrow> [Log_error err] | None \<Rightarrow> [])
                 @ Log ''Sending offer'' # tail \<and>
               (case json_Marshal_offer ?env offer of
                  Inl err \<Rightarrow> tail = [Log ''Unable to marshal offer to json'']
                | Inr offerString \<Rightarrow>
                    (case json_Marshal_message ?env \<lparr>Event = ''offer'', Data = offerString\<rparr> of
                       Inl err \<Rightarrow> tail = [Log ''Unable to marshal offer to json'']
                     | Inr messageString \<Rightarrow>
                         tail = [SignalSocket_Write (SignalSocket receiver) MessageText
                                   messageString])))"
    by blast
  from run h1 have s': "s' = ?s" and effs: "pruned @ concat (map pass (range_match ?ord)) = ?effs"
    by simp_all
  have "(1::uuid) \<in> set (range_match ?ord)" by simp
  with each s' obtain diff tail where
    "pass 1 = diff @ [Connection_CreateOffer 10,
                      Connection_SetLocalDescription 10 \<lparr>Type = SDPTypeOffer, SDP = ''v=0''\<rparr>]
                @ Log ''Sending offer'' # tail"
    "tail = [SignalSocket_Write 20 MessageText ''offer:sdp'']"
    by auto
  then have "SignalSocket_Write 20 MessageText ''offer:sdp'' \<in> set (pass 1)" by simp
  then have "SignalSocket_Write 20 MessageText ''offer:sdp''
      \<in> set (pruned @ concat (map pass (range_match ?ord)))" by simp
  then have "SignalSocket_Write 20 MessageText ''offer:sdp'' \<in> set ?effs"
    unfolding effs .
  with h1 show ?thesis by blast
qed

text \<open>
  The claim as stated fails. Subscriber 1 is in the output of the policy. In the first
  rebalance its \<^verbatim>\<open>CreateOffer\<close> fails: the rebalance logs and goes on, no local
  description is installed and nothing is written on the subscriber's socket. In the
  second \<^verbatim>\<open>SetLocalDescription\<close> fails: the offer is not installed, and it is sent all
  the same.
\<close>

theorem rebalance_offer_failure_skips_send:
  "RRDist [''sv''] [1] = Inr [1 \<mapsto> [''sv'' \<mapsto> True]] \<and>
   rebalanceReceivers
     \<lparr>ConnectionState = (\<lambda>c. PeerConnectionStateConnected),
        GetSenders = (\<lambda>c. [\<lparr>sender_handle = 0,
           sender_Track = Some \<lparr>ID = ''v'', StreamID = ''s'', Codec = ''vp8''\<rparr>\<rparr>]),
        CreateOffer = (\<lambda>c. Inl (OtherError ''closed'')),
        SetLocalDescription = (\<lambda>c d. None),
        json_Marshal_offer = (\<lambda>d. Inr ''sdp''),
        json_Marshal_message = (\<lambda>m. Inr (Event m @ '':'' @ Data m))\<rparr>
     \<lparr>range_prune = [1], range_receivers = [1], range_senders = [''sv''],
        range_match = [1], range_target = (\<lambda>u. [''sv''])\<rparr>
     \<lparr>peerSender = Map.empty,
        senders = [''sv'' \<mapsto> \<lparr>ID = ''v'', StreamID = ''s'', Codec = ''vp8''\<rparr>],
        receivers = [1 \<mapsto> \<lparr>Connection = 10, SignalSocket = 20\<rparr>],
        distributionFunction = RRDist\<rparr>
   = (\<lparr>peerSender = Map.empty,
        senders = [''sv'' \<mapsto> \<lparr>ID = ''v'', StreamID = ''s'', Codec = ''vp8''\<rparr>],
        receivers = [1 \<mapsto> \<lparr>Connection = 10, SignalSocket = 20\<rparr>],
        distributionFunction = RRDist\<rparr>,
      [Connection_CreateOffer 10, Log ''Unable to create offer''],
      None) \<and>
   rebalanceReceivers
     \<lparr>ConnectionState = (\<lambda>c. PeerConnectionStateConnected),
        GetSenders = (\<lambda>c. [\<lparr>sender_handle = 0,
           sender_Track = Some \<lparr>ID = ''v'', StreamID = ''s'', Codec = ''vp8''\<rparr>\<rparr>]),
        CreateOffer = (\<lambda>c. Inr \<lparr>Type = SDPTypeOffer, SDP = ''v=0''\<rparr>),
        SetLocalDescription = (\<lambda>c d. Some (OtherError ''state'')),
        json_Marshal_offer = (\<lambda>d. Inr ''sdp''),
        json_Marshal_message = (\<lambda>m. Inr (Event m @ '':'' @ Data m))\<rparr>
     \<lparr>range_prune = [1], range_receivers = [1], range_senders = [''sv''],
        range_match = [1], range_target = (\<lambda>u. [''sv''])\<rparr>
     \<lparr>peerSender = Map.empty,
        senders = [''sv'' \<mapsto> \<lparr>ID = ''v'', StreamID = ''s'', Codec = ''vp8''\<rparr>],
        receivers = [1 \<mapsto> \<lparr>Connection = 10, SignalSocket = 20\<rparr>],
        distributionFunction = RRDist\<rparr>
   = (\<lparr>peerSender = Map.empty,
        senders = [''sv'' \<mapsto> \<lparr>ID = ''v'', StreamID = ''s'', Codec = ''vp8''\<rparr>],
        receivers = [1 \<mapsto> \<lparr>Connection = 10, SignalSocket = 20\<rparr>],
        distributionFunction = RRDist\<rparr>,
      [Connection_CreateOffer 10,
       Connection_SetLocalDescription 10 \<lparr>Type = SDPTypeOffer, SDP = ''v=0''\<rparr>,
       Log_error (OtherError ''state''),
       Log ''Sending offer'',
       SignalSocket_Write 20 MessageText ''offer:sdp''],
      None)"
  by (simp add: rebalanceReceivers_def RRDist_def reconcile_def send_offer_def)

section \<open>Properties of publisher ingest\<close>

text \<open>
  With the right content type and every library call succeeding, the request registers
  a publisher and is answered 201.
\<close>

lemma post_whip_accepts_sdp:
  "status (fst (snd (post_whip 0 (NewBroadcaster RRDist)
     \<lparr>whip_NewPeerConnection = Inr 1, whip_AddTransceiverFromKind = None,
        whip_SetRemoteDescription = None,
        whip_CreateAnswer = Inr \<lparr>Type = SDPTypeAnswer, SDP = ''v=0''\<rparr>,
        whip_SetLocalDescription = None, whip_gatherComplete = True,
        whip_uuid_NewString = ''e'', whip_uuid_New = 7, whip_uuid_String = (\<lambda>u. ''7''),
        whip_LocalDescription = \<lparr>Type = SDPTypeAnswer, SDP = ''v=0''\<rparr>\<rparr>
     \<lparr>status = None, header = [], body = []\<rparr>
     \<lparr>Header_Get = (\<lambda>k. if k = ''content-type'' then ''application/sdp'' else []),
        Body_ReadAll = Inr ''v=0'', Context_Value = Map.empty, URLParam = (\<lambda>k. [])\<rparr>))) = Some 201 \<and>
   GetPeerSender (fst (post_whip 0 (NewBroadcaster RRDist)
     \<lparr>whip_NewPeerConnection = Inr 1, whip_AddTransceiverFromKind = None,
        whip_SetRemoteDescription = None,
        whip_CreateAnswer = Inr \<lparr>Type = SDPTypeAnswer, SDP = ''v=0''\<rparr>,
        whip_SetLocalDescription = None, whip_gatherComplete = True,
        whip_uuid_NewString = ''e'', whip_uuid_New = 7, whip_uuid_String = (\<lambda>u. ''7''),
        whip_LocalDescription = \<lparr>Type = SDPTypeAnswer, SDP = ''v=0''\<rparr>\<rparr>
     \<lparr>status = None, header = [], body = []\<rparr>
     \<lparr>Header_Get = (\<lambda>k. if k = ''content-type'' then ''application/sdp'' else []),
        Body_ReadAll = Inr ''v=0'', Context_Value = Map.empty, URLParam = (\<lambda>k. [])\<rparr>)) 7 = Some \<lparr>ETag = ''e'', PeerConn = 1\<rparr>"
  by (simp add: post_whip_def LogMiddleware_def whipHandler_def whip_negotiate_def LOGGER_def
      AddPeerSender_def NewBroadcaster_def GetPeerSender_def Write_def WriteHeader_def
      Header_Add_def StatusCreated_def StatusOK_def Let_def)

text \<open>
  Claim C8. A POST to \<^verbatim>\<open>/whip\<close> whose \<^verbatim>\<open>content-type\<close> header is not
  \<^verbatim>\<open>application/sdp\<close>, on a response that has no status yet, is answered 406 Not
  Acceptable. The handler returns with the registry it was given: \<^verbatim>\<open>AddPeerSender\<close> is
  not reached, and the only effect is the request log of the middleware.
\<close>

theorem whipHandler_bad_content_type:
  "Header_Get r ''content-type'' \<noteq> ''application/sdp'' \<Longrightarrow> status w = None \<Longrightarrow>
   \<exists>w'. post_whip l b env w r = (b, w', [Log ''Handled request''], Return) \<and>
        status w' = Some StatusNotAcceptable \<and> StatusNotAcceptable = 406"
  by (simp add: post_whip_def LogMiddleware_def whipHandler_def http_Error_def Write_def
      WriteHeader_def Header_Set_def Header_Del_def StatusNotAcceptable_def)

theorem whipHandler_bad_content_type_witness:
  "Header_Get \<lparr>Header_Get = (\<lambda>k. if k = ''content-type'' then ''text/plain'' else []),
        Body_ReadAll = Inr ''v=0'', Context_Value = Map.empty, URLParam = (\<lambda>k. [])\<rparr> ''content-type'' \<noteq> ''application/sdp'' \<and>
   (\<exists>w'. post_whip 0 (NewBroadcaster RRDist)
     \<lparr>whip_NewPeerConnection = Inr 1, whip_AddTransceiverFromKind = None,
        whip_SetRemoteDescription = None,
        whip_CreateAnswer = Inr \<lparr>Type = SDPTypeAnswer, SDP = ''v=0''\<rparr>,
        whip_SetLocalDescription = None, whip_gatherComplete = True,
        whip_uuid_NewString = ''e'', whip_uuid_New = 7, whip_uuid_String = (\<lambda>u. ''7''),
        whip_LocalDescription = \<lparr>Type = SDPTypeAnswer, SDP = ''v=0''\<rparr>\<rparr>
     \<lparr>status = None, header = [], body = []\<rparr>
     \<lparr>Header_Get = (\<lambda>k. if k = ''content-type'' then ''text/plain'' else []),
        Body_ReadAll = Inr ''v=0'', Context_Value = Map.empty, URLParam = (\<lambda>k. [])\<rparr>
     = (NewBroadcaster RRDist, w', [Log ''Handled request''], Return) \<and> status w' = Some 406)"
proof -
  let ?r = "\<lparr>Header_Get = (\<lambda>k. if k = ''content-type'' then ''text/plain'' else []),
        Body_ReadAll = Inr ''v=0'', Context_Value = Map.empty, URLParam = (\<lambda>k. [])\<rparr>"
  let ?w = "\<lparr>status = None, header = [], body = []\<rparr>"
  let ?env = "\<lparr>whip_NewPeerConnection = Inr 1, whip_AddTransceiverFromKind = None,
        whip_SetRemoteDescription = None,
        whip_CreateAnswer = Inr \<lparr>Type = SDPTypeAnswer, SDP = ''v=0''\<rparr>,
        whip_SetLocalDescription = None, whip_gatherComplete = True,
        whip_uuid_NewString = ''e'', whip_uuid_New = 7, whip_uuid_String = (\<lambda>u. ''7''),
        whip_LocalDescription = \<lparr>Type = SDPTypeAnswer, SDP = ''v=0''\<rparr>\<rparr>"
  have h1: "Header_Get ?r ''content-type'' \<noteq> ''application/sdp''" by simp
  have h2: "status ?w = None" by simp
  from whipHandler_bad_content_type [OF h1 h2, of 0 "NewBroadcaster RRDist" ?env]
  have "\<exists>w'. post_whip 0 (NewBroadcaster RRDist) ?env ?w ?r
          = (NewBroadcaster RRDist, w', [Log ''Handled request''], Return) \<and> status w' = Some 406"
    by (simp only: StatusNotAcceptable_def) blast
  with h1 show ?thesis by blast
qed

end
